theory Spec2Isabelle
  imports Main "HOL-Library.Word" "HOL-Library.Sublist"
begin

section \<open>Values shared by the whole package\<close>

text \<open>
  A Go \<open>error\<close> is identified with the text its \<open>Error()\<close> method returns; a nil error is
  \<open>None\<close>. A \<open>context.Context\<close> is the background context, a context derived from another
  one with a timeout (in nanoseconds), or some other context of the caller's, named by a
  number.
\<close>

type_synonym error = string

datatype Ctx = Background | WithTimeout Ctx nat | CallerCtx nat

text \<open>\<open>time.Second\<close>, in nanoseconds.\<close>

definition Second :: nat where
  "Second = 1000000000"

text \<open>A function either returns or panics with a value, kept as its \<open>%v\<close> rendering.\<close>

datatype 'a outcome = Return 'a | Panic string

section \<open>The logrus and OpenTelemetry log API, as far as the hook uses it\<close>

text \<open>
  \<open>logrus.Level\<close> is a \<open>uint32\<close>; the seven levels are numbered from the most severe
  (\<open>PanicLevel = 0\<close>) to the least (\<open>TraceLevel = 6\<close>), as the logrus library declares them.
\<close>

type_synonym Level = "32 word"

definition PanicLevel :: Level where "PanicLevel = 0"
definition FatalLevel :: Level where "FatalLevel = 1"
definition ErrorLevel :: Level where "ErrorLevel = 2"
definition WarnLevel :: Level where "WarnLevel = 3"
definition InfoLevel :: Level where "InfoLevel = 4"
definition DebugLevel :: Level where "DebugLevel = 5"
definition TraceLevel :: Level where "TraceLevel = 6"

text \<open>\<open>logrus.AllLevels\<close>, in the library's order.\<close>

definition AllLevels :: "Level list" where
  "AllLevels = [PanicLevel, FatalLevel, ErrorLevel, WarnLevel, InfoLevel, DebugLevel, TraceLevel]"

text \<open>
  \<open>Level.String()\<close> of logrus: the level's own name, and \<open>unknown\<close> for a value that is not
  one of the seven.
\<close>

definition Level_String :: "Level \<Rightarrow> string" where
  "Level_String level =
     (if level = TraceLevel then ''trace''
      else if level = DebugLevel then ''debug''
      else if level = InfoLevel then ''info''
      else if level = WarnLevel then ''warning''
      else if level = ErrorLevel then ''error''
      else if level = FatalLevel then ''fatal''
      else if level = PanicLevel then ''panic''
      else ''unknown'')"

text \<open>
  \<open>otellog.Severity\<close> is an \<open>int\<close>. The OpenTelemetry log API numbers the severities from 1
  to 24, four per class; the unsuffixed names are the first of each class.
\<close>

type_synonym Severity = int

definition SeverityTrace :: Severity where "SeverityTrace = 1"
definition SeverityDebug :: Severity where "SeverityDebug = 5"
definition SeverityInfo :: Severity where "SeverityInfo = 9"
definition SeverityWarn :: Severity where "SeverityWarn = 13"
definition SeverityError :: Severity where "SeverityError = 17"
definition SeverityFatal1 :: Severity where "SeverityFatal1 = 21"
definition SeverityFatal2 :: Severity where "SeverityFatal2 = 22"
definition SeverityFatal3 :: Severity where "SeverityFatal3 = 23"
definition SeverityFatal4 :: Severity where "SeverityFatal4 = 24"
definition SeverityFatal :: Severity where "SeverityFatal = SeverityFatal1"

text \<open>The severities of the fatal class.\<close>

definition fatal_class :: "Severity list" where
  "fatal_class = [SeverityFatal1, SeverityFatal2, SeverityFatal3, SeverityFatal4]"

text \<open>
  An attribute of a log record: \<open>otellog.String(k, s)\<close> or \<open>otellog.Int(k, n)\<close>.
\<close>

datatype AttrValue = StringValue string | IntValue int

type_synonym KeyValue = "string \<times> AttrValue"

definition otellog_String :: "string \<Rightarrow> string \<Rightarrow> KeyValue" where
  "otellog_String k s = (k, StringValue s)"

definition otellog_Int :: "string \<Rightarrow> int \<Rightarrow> KeyValue" where
  "otellog_Int k n = (k, IntValue n)"

text \<open>\<open>otellog.Record\<close>, with the fields the hook sets.\<close>

record LogRecord =
  Timestamp :: int
  Body :: string
  RecSeverity :: Severity
  SeverityText :: string
  Attributes :: "KeyValue list"

text \<open>
  What the program does to the outside, in the order it does it: the calls it makes on the
  logrus loggers, on the OpenTelemetry SDK and on the shutdown callbacks, each with the
  result the callee gave. \<open>EvLog\<close> is a line of the package on the standard logger;
  \<open>EvEmit\<close> is a record that a log hook hands to its logger.
\<close>

datatype event =
    EvLog Level string "error option"
  | EvSetErrorHandler
  | EvCall string
  | EvAddHook "nat option"
  | EvLogHookClose Ctx "error option"
  | EvMetricsBridgeShutdown Ctx "error option"
  | EvShutdownFunc nat Ctx "error option"
  | EvEmit Ctx LogRecord

text \<open>
  An \<open>otellog.Logger\<close>, given by its method: \<open>Emit\<close> has no result; what the implementation
  does may depend on everything that happened before, and it may panic (\<open>Some\<close> of the
  panic value).
\<close>

record Logger =
  Emit :: "Ctx \<Rightarrow> LogRecord \<Rightarrow> event list \<Rightarrow> string option"

text \<open>
  A \<open>*sdklog.LoggerProvider\<close>, given by its methods: \<open>Shutdown(ctx)\<close> returns an error or
  nil, and \<open>Logger(name)\<close> derives a logger.
\<close>

record LoggerProvider =
  lp_Shutdown :: "Ctx \<Rightarrow> event list \<Rightarrow> error option"
  lp_Logger :: "string \<Rightarrow> Logger"

text \<open>
  A value stored in \<open>logrus.Fields\<close> (an \<open>interface{}\<close>): an error, with its \<open>Error()\<close>
  text, or any other value, with its \<open>%v\<close> rendering.
\<close>

datatype Value = ErrorValue error | OtherValue string

text \<open>\<open>fmt.Sprintf("%v", v)\<close>: an error is printed through its \<open>Error()\<close> method.\<close>

fun Sprintf_v :: "Value \<Rightarrow> string" where
  "Sprintf_v (ErrorValue e) = e"
| "Sprintf_v (OtherValue s) = s"

text \<open>\<open>runtime.Frame\<close> and \<open>logrus.Logger\<close>, with the fields the hook reads.\<close>

record Frame =
  File :: string
  Function :: string
  Line :: int

record LogrusLogger =
  logger_id :: nat
  ReportCaller :: bool

text \<open>
  \<open>logrus.Entry\<close>. A Go map is kept as the list of its entries, with distinct keys, in the
  order in which a \<open>range\<close> over it yields them; a lookup is \<open>map_of\<close>.
\<close>

record Entry =
  EntryLogger :: "LogrusLogger option"
  Data :: "(string \<times> Value) list"
  Time :: int
  EntryLevel :: Level
  Caller :: "Frame option"
  Message :: string
  EntryContext :: "Ctx option"

text \<open>\<open>Entry.HasCaller()\<close> of logrus.\<close>

definition HasCaller :: "Entry \<Rightarrow> bool" where
  "HasCaller entry =
     (case EntryLogger entry of
        None \<Rightarrow> False
      | Some l \<Rightarrow> ReportCaller l \<and> Caller entry \<noteq> None)"

text \<open>\<open>logrus.ErrorKey\<close>.\<close>

definition ErrorKey :: string where
  "ErrorKey = ''error''"

section \<open>The log hook\<close>

definition logExportTimeout :: nat where
  "logExportTimeout = 10 * Second"

definition logHookCloseTimeout :: nat where
  "logHookCloseTimeout = 15 * Second"

text \<open>
  \<open>OTELLogHook\<close>. The logger is an interface value and is nil (\<open>None\<close>) in a partially
  initialised hook, the case the deferred function of \<open>Fire\<close> is there for. The provider
  is a pointer that both constructors set and that only \<open>Close\<close> follows; the record keeps
  the provider itself. The label map is the field \<open>context\<close> of the source; both
  constructors make it, empty.
\<close>

record OTELLogHook =
  loggerProvider :: LoggerProvider
  otelLogger :: "Logger option"
  hook_context :: "(string \<times> string) list"

text \<open>\<open>NewOTELLogHookWithProvider\<close>.\<close>

definition NewOTELLogHookWithProvider :: "LoggerProvider \<Rightarrow> OTELLogHook" where
  "NewOTELLogHookWithProvider provider =
     \<lparr>loggerProvider = provider,
      otelLogger = Some (lp_Logger provider ''drone-runner-aws''),
      hook_context = []\<rparr>"

text \<open>\<open>Levels\<close>: every level.\<close>

definition Levels :: "OTELLogHook \<Rightarrow> Level list" where
  "Levels h = AllLevels"

text \<open>\<open>mapLogrusLevel\<close>: the switch of the source, case by case, with its default.\<close>

definition mapLogrusLevel :: "Level \<Rightarrow> Severity" where
  "mapLogrusLevel level =
     (if level = TraceLevel then SeverityTrace
      else if level = DebugLevel then SeverityDebug
      else if level = InfoLevel then SeverityInfo
      else if level = WarnLevel then SeverityWarn
      else if level = ErrorLevel then SeverityError
      else if level = FatalLevel then SeverityFatal
      else if level = PanicLevel then SeverityFatal4
      else SeverityInfo)"

text \<open>
  \<open>m[key] = value\<close> on a Go map: the value of an existing key is replaced, a new key is
  added.
\<close>

fun map_assign :: "string \<Rightarrow> string \<Rightarrow> (string \<times> string) list \<Rightarrow> (string \<times> string) list" where
  "map_assign k v [] = [(k, v)]"
| "map_assign k v ((k', v') # m) =
     (if k' = k then (k, v) # m else (k', v') # map_assign k v m)"

text \<open>
  \<open>UpdateContext\<close>: the loop over the argument assigns every pair into the label map. The
  write lock makes the whole loop one step.
\<close>

fun assign_all :: "(string \<times> string) list \<Rightarrow> (string \<times> string) list \<Rightarrow> (string \<times> string) list" where
  "assign_all [] m = m"
| "assign_all ((key, val) # rest) m = assign_all rest (map_assign key val m)"

definition UpdateContext :: "OTELLogHook \<Rightarrow> (string \<times> string) list \<Rightarrow> OTELLogHook" where
  "UpdateContext h ctxMap = h\<lparr>hook_context := assign_all ctxMap (hook_context h)\<rparr>"

text \<open>The panic of a call through a nil interface or pointer.\<close>

definition nil_dereference :: string where
  "nil_dereference = ''runtime error: invalid memory address or nil pointer dereference''"

text \<open>The record that \<open>Fire\<close> builds and the attributes it collects, in the source's order.\<close>

definition Fire_attrs :: "OTELLogHook \<Rightarrow> Entry \<Rightarrow> KeyValue list" where
  "Fire_attrs h entry =
     map (\<lambda>(k, v). otellog_String k (Sprintf_v v)) (Data entry)
     @ map (\<lambda>(k, v). otellog_String k v) (hook_context h)
     @ (if HasCaller entry then
          (case Caller entry of
             None \<Rightarrow> []
           | Some c \<Rightarrow>
               [otellog_String ''code.filepath'' (File c),
                otellog_String ''code.function'' (Function c),
                otellog_Int ''code.lineno'' (Line c)])
        else [])
     @ (case map_of (Data entry) ErrorKey of
          Some (ErrorValue err) \<Rightarrow> [otellog_String ''exception.message'' err]
        | _ \<Rightarrow> [])"

definition Fire_record :: "OTELLogHook \<Rightarrow> Entry \<Rightarrow> LogRecord" where
  "Fire_record h entry =
     \<lparr>Timestamp = Time entry,
      Body = Message entry,
      RecSeverity = mapLogrusLevel (EntryLevel entry),
      SeverityText = Level_String (EntryLevel entry),
      Attributes = Fire_attrs h entry\<rparr>"

definition Fire_ctx :: "Entry \<Rightarrow> Ctx" where
  "Fire_ctx entry = (case EntryContext entry of None \<Rightarrow> Background | Some c \<Rightarrow> c)"

text \<open>
  The body of \<open>Fire\<close>, below the deferred function: it ends by returning nil or by a
  panic, of the call through a nil logger or of the logger's \<open>Emit\<close> itself.
\<close>

definition Fire_body :: "OTELLogHook \<Rightarrow> Entry \<Rightarrow> event list \<Rightarrow> (error option) outcome \<times> event list" where
  "Fire_body h entry tr =
     (let ctx = Fire_ctx entry;
          rec = Fire_record h entry
      in case otelLogger h of
           None \<Rightarrow> (Panic nil_dereference, tr)
         | Some lg \<Rightarrow>
             (case Emit lg ctx rec tr of
                Some r \<Rightarrow> (Panic r, tr @ [EvEmit ctx rec])
              | None \<Rightarrow> (Return None, tr @ [EvEmit ctx rec])))"

text \<open>
  \<open>Fire\<close>: the deferred function recovers a panic of the body and sets the returned error.
\<close>

definition Fire :: "OTELLogHook \<Rightarrow> Entry \<Rightarrow> event list \<Rightarrow> error option \<times> event list" where
  "Fire h entry tr =
     (case Fire_body h entry tr of
        (Return retErr, tr') \<Rightarrow> (retErr, tr')
      | (Panic r, tr') \<Rightarrow> (Some (''otel log hook panic: '' @ r), tr'))"

text \<open>Calls of \<open>Fire\<close> one after the other, on the same hook.\<close>

fun Fire_all :: "OTELLogHook \<Rightarrow> Entry list \<Rightarrow> event list \<Rightarrow> error option list \<times> event list" where
  "Fire_all h [] tr = ([], tr)"
| "Fire_all h (entry # es) tr =
     (case Fire h entry tr of
        (r, tr') \<Rightarrow> (case Fire_all h es tr' of (rs, tr'') \<Rightarrow> (r # rs, tr'')))"

text \<open>\<open>Close\<close>: the provider's shutdown, under the hook's own timeout.\<close>

definition Close :: "OTELLogHook \<Rightarrow> event list \<Rightarrow> error option \<times> event list" where
  "Close h tr =
     (let ctx = WithTimeout Background logHookCloseTimeout;
          r = lp_Shutdown (loggerProvider h) ctx tr
      in (r, tr @ [EvLogHookClose ctx r]))"

section \<open>The logrus standard logger\<close>

text \<open>
  The package writes its own log lines with \<open>logrus.Info\<close>, \<open>logrus.Warn\<close> and so on, that
  is, on the standard logger of logrus, and \<open>Start\<close> called without a logger adds its hook
  to that same logger. So a line of the package is itself shipped through the hooks that
  are registered there. The standard logger is kept with what this needs: the hooks that
  this package added, in the order of their registration (hooks that the application adds
  itself are outside), its level, whether it reports callers, and what the clock and the
  call stack give at a line, which may depend on everything that happened before. A hook
  in the list is the object that the manager holds as its log hook; nothing here changes
  a hook once it is registered, and logrus never removes one.
\<close>

record StdLogger =
  std_hooks :: "OTELLogHook list"
  std_level :: Level
  std_ReportCaller :: bool
  std_now :: "event list \<Rightarrow> int"
  std_caller :: "event list \<Rightarrow> Frame option"

text \<open>A \<open>*logrus.Logger\<close> is named by a number; this one names the standard logger.\<close>

definition standard_logger_id :: nat where
  "standard_logger_id = 0"

text \<open>\<open>Logger.IsLevelEnabled\<close> of logrus: the logger's level is at least the line's.\<close>

definition IsLevelEnabled :: "StdLogger \<Rightarrow> Level \<Rightarrow> bool" where
  "IsLevelEnabled lg level = (level \<le> std_level lg)"

text \<open>
  The entry that logrus builds for a line on the standard logger: the time, the level,
  the message, the error of \<open>WithError\<close> under the error key, the caller when the logger
  reports callers, no context.
\<close>

definition std_entry :: "StdLogger \<Rightarrow> Level \<Rightarrow> string \<Rightarrow> error option \<Rightarrow> event list \<Rightarrow> Entry" where
  "std_entry lg level msg err tr =
     \<lparr>EntryLogger = Some \<lparr>logger_id = standard_logger_id, ReportCaller = std_ReportCaller lg\<rparr>,
      Data = (case err of None \<Rightarrow> [] | Some e \<Rightarrow> [(ErrorKey, ErrorValue e)]),
      Time = std_now lg tr,
      EntryLevel = level,
      Caller = (if std_ReportCaller lg then std_caller lg tr else None),
      Message = msg,
      EntryContext = None\<rparr>"

text \<open>
  \<open>LevelHooks.Fire\<close> of logrus: the hooks are fired one after the other, and the first
  error ends the loop.
\<close>

fun LevelHooks_Fire :: "OTELLogHook list \<Rightarrow> Entry \<Rightarrow> event list \<Rightarrow> error option \<times> event list" where
  "LevelHooks_Fire [] entry tr = (None, tr)"
| "LevelHooks_Fire (hook # hooks) entry tr =
     (case Fire hook entry tr of
        (Some err, tr') \<Rightarrow> (Some err, tr')
      | (None, tr') \<Rightarrow> LevelHooks_Fire hooks entry tr')"

text \<open>
  A line of the package on the standard logger: the call, and, when the level is
  enabled, the hooks registered for the level, fired on the entry. An error of a hook
  goes to the standard error stream and nowhere else.
\<close>

definition logrus_log :: "StdLogger \<Rightarrow> Level \<Rightarrow> string \<Rightarrow> error option \<Rightarrow> event list \<Rightarrow> event list" where
  "logrus_log lg level msg err tr =
     (let tr0 = tr @ [EvLog level msg err]
      in if IsLevelEnabled lg level
         then snd (LevelHooks_Fire [hook \<leftarrow> std_hooks lg. level \<in> set (Levels hook)]
                     (std_entry lg level msg err tr0) tr0)
         else tr0)"

text \<open>
  \<open>AddHook\<close>, on the standard logger (\<open>logrus.AddHook\<close>, or \<open>logger.AddHook\<close> when the
  logger given is the standard logger) or on another logger, whose hooks the package's
  own lines do not reach.
\<close>

definition AddHook :: "LogrusLogger option \<Rightarrow> OTELLogHook \<Rightarrow> StdLogger \<Rightarrow> StdLogger" where
  "AddHook logger hook lg =
     (case logger of
        None \<Rightarrow> lg\<lparr>std_hooks := std_hooks lg @ [hook]\<rparr>
      | Some l \<Rightarrow>
          if logger_id l = standard_logger_id
          then lg\<lparr>std_hooks := std_hooks lg @ [hook]\<rparr>
          else lg)"

section \<open>Configuration\<close>

text \<open>\<open>Config\<close>; the header map is kept as the list of its entries.\<close>

record Config =
  Enabled :: bool
  Endpoint :: string
  Protocol :: string
  Insecure :: bool
  ExportLogs :: bool
  ExportMetrics :: bool
  ServiceName :: string
  ServiceVersion :: string
  Environment :: string
  Headers :: "(string \<times> string) list"

section \<open>The OpenTelemetry SDK, as far as the package calls it\<close>

text \<open>
  \<open>shutdownFunc\<close>: a function from a context to an error or nil. What it answers may
  depend on everything that happened before the call.
\<close>

type_synonym shutdownFunc = "Ctx \<Rightarrow> event list \<Rightarrow> error option"

text \<open>The options the package passes to the OTLP exporters' constructors.\<close>

datatype ExporterOption =
    WithEndpoint string
  | WithInsecure
  | WithHeaders "(string \<times> string) list"

text \<open>An OTLP log exporter and an OTLP metric exporter, given by their \<open>Shutdown\<close> method.\<close>

record LogExporter =
  le_Shutdown :: shutdownFunc

record MetricExporter =
  me_Shutdown :: shutdownFunc

text \<open>
  A \<open>sdkmetric.Reader\<close>: a periodic reader around an exporter, with its interval and
  timeout, or a manual reader.
\<close>

datatype Reader = PeriodicReader MetricExporter nat nat | ManualReader

text \<open>A \<open>*resource.Resource\<close>, by its attributes, and the options of \<open>resource.New\<close>.\<close>

type_synonym Resource = "(string \<times> string) list"

datatype ResourceOption =
    WithAttributes "(string \<times> string) list"
  | WithProcessRuntimeDescription
  | WithOS
  | WithHost

text \<open>The options of \<open>sdklog.NewLoggerProvider\<close> and of \<open>sdkmetric.NewMeterProvider\<close>.\<close>

datatype Processor = BatchProcessor LogExporter nat

datatype LoggerProviderOption =
    WithProcessor Processor
  | sdklog_WithResource "Resource option"

datatype MeterProviderOption =
    WithReader Reader
  | sdkmetric_WithResource "Resource option"

text \<open>A \<open>*sdkmetric.MeterProvider\<close>, given by its \<open>Shutdown\<close> method.\<close>

record MeterProvider =
  mp_Shutdown :: shutdownFunc

text \<open>
  The constructors of the SDK and of the OTLP exporters. They are outside the package:
  whether one of them fails, and what the providers they build answer later, is given
  by the environment the program runs in.
\<close>

record env =
  otlploghttp_New :: "ExporterOption list \<Rightarrow> error + LogExporter"
  otlploggrpc_New :: "ExporterOption list \<Rightarrow> error + LogExporter"
  otlpmetrichttp_New :: "ExporterOption list \<Rightarrow> error + MetricExporter"
  otlpmetricgrpc_New :: "ExporterOption list \<Rightarrow> error + MetricExporter"
  resource_New :: "ResourceOption list \<Rightarrow> Resource option \<times> error option"
  sdklog_NewLoggerProvider :: "LoggerProviderOption list \<Rightarrow> LoggerProvider"
  sdkmetric_NewMeterProvider :: "MeterProviderOption list \<Rightarrow> MeterProvider"

section \<open>Exporters\<close>

definition protocolHTTP :: string where
  "protocolHTTP = ''http''"

definition metricExportTimeout :: nat where
  "metricExportTimeout = 30 * Second"

definition DefaultMetricsExportInterval :: nat where
  "DefaultMetricsExportInterval = 30 * Second"

text \<open>The options both branches of both constructors collect.\<close>

definition exporter_opts :: "Config \<Rightarrow> ExporterOption list" where
  "exporter_opts config =
     [WithEndpoint (Endpoint config)]
     @ (if Insecure config then [WithInsecure] else [])
     @ (if length (Headers config) > 0 then [WithHeaders (Headers config)] else [])"

text \<open>\<open>createLogExporter\<close>: the HTTP exporter for the protocol \<open>http\<close>, gRPC otherwise.\<close>

definition createLogExporter ::
  "env \<Rightarrow> Config \<Rightarrow> event list \<Rightarrow> (error + LogExporter \<times> shutdownFunc) \<times> event list" where
  "createLogExporter ev config tr =
     (if Protocol config = protocolHTTP then
        (case otlploghttp_New ev (exporter_opts config) of
           Inl err \<Rightarrow>
             (Inl (''failed to create OTLP HTTP log exporter: '' @ err),
              tr @ [EvCall ''otlploghttp.New''])
         | Inr exp \<Rightarrow> (Inr (exp, le_Shutdown exp), tr @ [EvCall ''otlploghttp.New'']))
      else
        (case otlploggrpc_New ev (exporter_opts config) of
           Inl err \<Rightarrow>
             (Inl (''failed to create OTLP gRPC log exporter: '' @ err),
              tr @ [EvCall ''otlploggrpc.New''])
         | Inr exp \<Rightarrow> (Inr (exp, le_Shutdown exp), tr @ [EvCall ''otlploggrpc.New''])))"

text \<open>\<open>createMetricReader\<close>: a periodic reader around the exporter of the protocol.\<close>

definition createMetricReader ::
  "env \<Rightarrow> Config \<Rightarrow> event list \<Rightarrow> (error + Reader \<times> shutdownFunc) \<times> event list" where
  "createMetricReader ev config tr =
     (if Protocol config = protocolHTTP then
        (case otlpmetrichttp_New ev (exporter_opts config) of
           Inl err \<Rightarrow>
             (Inl (''failed to create OTLP HTTP metric exporter: '' @ err),
              tr @ [EvCall ''otlpmetrichttp.New''])
         | Inr exporter \<Rightarrow>
             (Inr (PeriodicReader exporter DefaultMetricsExportInterval metricExportTimeout,
                   me_Shutdown exporter),
              tr @ [EvCall ''otlpmetrichttp.New'', EvCall ''sdkmetric.NewPeriodicReader'']))
      else
        (case otlpmetricgrpc_New ev (exporter_opts config) of
           Inl err \<Rightarrow>
             (Inl (''failed to create OTLP gRPC metric exporter: '' @ err),
              tr @ [EvCall ''otlpmetricgrpc.New''])
         | Inr exporter \<Rightarrow>
             (Inr (PeriodicReader exporter DefaultMetricsExportInterval metricExportTimeout,
                   me_Shutdown exporter),
              tr @ [EvCall ''otlpmetricgrpc.New'', EvCall ''sdkmetric.NewPeriodicReader''])))"

section \<open>Resource\<close>

text \<open>\<open>NewResource\<close>: the service name always, the version and the environment when set.\<close>

definition NewResource ::
  "env \<Rightarrow> Config \<Rightarrow> string \<Rightarrow> event list \<Rightarrow> (Resource option \<times> error option) \<times> event list" where
  "NewResource ev config version tr =
     (let attrs = [(''service.name'', ServiceName config)]
                  @ (if version \<noteq> [] then [(''service.version'', version)] else [])
                  @ (if Environment config \<noteq> []
                     then [(''deployment.environment'', Environment config)] else [])
      in (resource_New ev [WithAttributes attrs, WithProcessRuntimeDescription, WithOS, WithHost],
          tr @ [EvCall ''resource.New'']))"

section \<open>Constructors of the hook and of the metrics bridge\<close>

text \<open>
  \<open>newOTELLogHookFromExporter\<close>: a provider with a batch processor around the exporter,
  one logger derived from it, an empty label map. The error it returns is always nil.
\<close>

definition newOTELLogHookFromExporter ::
  "env \<Rightarrow> LogExporter \<Rightarrow> LoggerProviderOption list \<Rightarrow> event list
     \<Rightarrow> (error + OTELLogHook) \<times> event list" where
  "newOTELLogHookFromExporter ev exporter opts tr =
     (let providerOpts = [WithProcessor (BatchProcessor exporter logExportTimeout)] @ opts;
          provider = sdklog_NewLoggerProvider ev providerOpts;
          lg = lp_Logger provider ''drone-runner-aws''
      in (Inr \<lparr>loggerProvider = provider, otelLogger = Some lg, hook_context = []\<rparr>,
          tr @ [EvCall ''sdklog.NewBatchProcessor'', EvCall ''sdklog.NewLoggerProvider'']))"

text \<open>
  \<open>MetricsBridge\<close> and its constructors and methods. As in the hook, the record keeps
  the provider that the pointer of the source leads to.
\<close>

record MetricsBridge =
  meterProvider :: MeterProvider

definition newMetricsBridgeFromReader ::
  "env \<Rightarrow> Reader \<Rightarrow> MeterProviderOption list \<Rightarrow> event list
     \<Rightarrow> (error + MetricsBridge) \<times> event list" where
  "newMetricsBridgeFromReader ev reader opts tr =
     (let providerOpts = [WithReader reader] @ opts;
          provider = sdkmetric_NewMeterProvider ev providerOpts
      in (Inr \<lparr>meterProvider = provider\<rparr>, tr @ [EvCall ''sdkmetric.NewMeterProvider'']))"

definition NewMetricsBridgeWithProvider :: "MeterProvider \<Rightarrow> MetricsBridge" where
  "NewMetricsBridgeWithProvider provider = \<lparr>meterProvider = provider\<rparr>"

definition GetMeterProvider :: "MetricsBridge \<Rightarrow> MeterProvider" where
  "GetMeterProvider b = meterProvider b"

definition MetricsBridge_Shutdown ::
  "MetricsBridge \<Rightarrow> Ctx \<Rightarrow> event list \<Rightarrow> error option \<times> event list" where
  "MetricsBridge_Shutdown b ctx tr =
     (let r = mp_Shutdown (meterProvider b) ctx tr
      in (r, tr @ [EvMetricsBridgeShutdown ctx r]))"

section \<open>The manager\<close>

record manager =
  logHook :: "OTELLogHook option"
  metricsBridge :: "MetricsBridge option"
  shutdownFuncs :: "shutdownFunc list"
  config :: Config

text \<open>
  The package's variables and what they act on: the slot \<open>activeManager\<close>, the standard
  logger of logrus, and the history of what the program did to the outside. \<open>Start\<close>,
  \<open>Shutdown\<close> and the accessors hold the mutex \<open>mu\<close> from their first access of the slot to
  their return, so each of them is one step on this state.
\<close>

record globals =
  activeManager :: "manager option"
  stdLogger :: StdLogger
  history :: "event list"

text \<open>\<open>fmt\<close>'s \<open>%v\<close> of a slice of errors: the texts, separated by spaces, in brackets.\<close>

fun join_space :: "string list \<Rightarrow> string" where
  "join_space [] = []"
| "join_space [x] = x"
| "join_space (x # y # xs) = x @ '' '' @ join_space (y # xs)"

definition Sprint_errs :: "error list \<Rightarrow> string" where
  "Sprint_errs errs = ''['' @ join_space errs @ '']''"

text \<open>
  The third step of \<open>shutdown\<close>: the loop over \<open>shutdownFuncs\<close>, with the index of the
  function, the errors collected so far and the history.
\<close>

fun run_shutdownFuncs ::
  "shutdownFunc list \<Rightarrow> nat \<Rightarrow> Ctx \<Rightarrow> error list \<Rightarrow> event list \<Rightarrow> error list \<times> event list" where
  "run_shutdownFuncs [] i ctx errs tr = (errs, tr)"
| "run_shutdownFuncs (fn # fns) i ctx errs tr =
     (let r = fn ctx tr;
          errs' = (case r of None \<Rightarrow> errs | Some err \<Rightarrow> errs @ [''exporter shutdown: '' @ err])
      in run_shutdownFuncs fns (Suc i) ctx errs' (tr @ [EvShutdownFunc i ctx r]))"

text \<open>
  \<open>manager.shutdown\<close>: nil for a nil manager; otherwise the log line, the log hook, then
  the metrics bridge, then the shutdown functions, collecting the errors.
\<close>

definition shutdown ::
  "StdLogger \<Rightarrow> manager option \<Rightarrow> Ctx \<Rightarrow> event list \<Rightarrow> error option \<times> event list" where
  "shutdown lg mo ctx tr =
     (case mo of
        None \<Rightarrow> (None, tr)
      | Some m \<Rightarrow>
          (let tr0 = logrus_log lg InfoLevel ''Shutting down OTEL integration'' None tr;
               (errs1, tr1) =
                 (case logHook m of
                    None \<Rightarrow> ([], tr0)
                  | Some h \<Rightarrow>
                      (case Close h tr0 of
                         (None, t) \<Rightarrow> ([], t)
                       | (Some err, t) \<Rightarrow> ([''log hook shutdown: '' @ err], t)));
               (errs2, tr2) =
                 (case metricsBridge m of
                    None \<Rightarrow> (errs1, tr1)
                  | Some b \<Rightarrow>
                      (case MetricsBridge_Shutdown b ctx tr1 of
                         (None, t) \<Rightarrow> (errs1, t)
                       | (Some err, t) \<Rightarrow> (errs1 @ [''metrics bridge shutdown: '' @ err], t)));
               (errs3, tr3) = run_shutdownFuncs (shutdownFuncs m) 0 ctx errs2 tr2
           in if length errs3 > 0
              then (Some (''OTEL shutdown errors: '' @ Sprint_errs errs3), tr3)
              else (None, tr3)))"

text \<open>\<open>Shutdown\<close>: nothing without an active manager; otherwise its shutdown, and the slot
  is cleared.\<close>

definition Shutdown :: "Ctx \<Rightarrow> globals \<Rightarrow> error option \<times> globals" where
  "Shutdown ctx g =
     (case activeManager g of
        None \<Rightarrow> (None, g)
      | Some m \<Rightarrow>
          (case shutdown (stdLogger g) (Some m) ctx (history g) of
             (err, tr) \<Rightarrow> (err, g\<lparr>activeManager := None, history := tr\<rparr>)))"

text \<open>The parts of \<open>Start\<close> under the lock, in the source's order.\<close>

definition shutdown_previous :: "Ctx \<Rightarrow> globals \<Rightarrow> event list" where
  "shutdown_previous ctx g =
     (case activeManager g of
        None \<Rightarrow> history g
      | Some m \<Rightarrow>
          (case shutdown (stdLogger g) (Some m) ctx
                  (logrus_log (stdLogger g) InfoLevel
                     ''Shutting down previous OTEL manager before reinitializing'' None (history g)) of
             (None, tr) \<Rightarrow> tr
           | (Some err, tr) \<Rightarrow>
               logrus_log (stdLogger g) WarnLevel
                 ''Failed to shutdown previous OTEL manager'' (Some err) tr))"

definition init_logs ::
  "env \<Rightarrow> Config \<Rightarrow> Resource option \<Rightarrow> LogrusLogger option \<Rightarrow> StdLogger \<Rightarrow> event list
     \<Rightarrow> OTELLogHook option \<times> StdLogger \<times> event list" where
  "init_logs ev cfg res logger lg tr =
     (if ExportLogs cfg then
        (case createLogExporter ev cfg tr of
           (Inl err, tr1) \<Rightarrow>
             (None, lg,
              logrus_log lg ErrorLevel ''Failed to create OTLP log exporter'' (Some err) tr1)
         | (Inr (logExporter, _), tr1) \<Rightarrow>
             (case newOTELLogHookFromExporter ev logExporter [sdklog_WithResource res] tr1 of
                (Inl err, tr2) \<Rightarrow>
                  (None, lg,
                   logrus_log lg ErrorLevel ''Failed to create OTEL log hook'' (Some err) tr2)
              | (Inr hook, tr2) \<Rightarrow>
                  (Some hook, AddHook logger hook lg,
                   logrus_log (AddHook logger hook lg) InfoLevel ''OTEL log export enabled'' None
                     (tr2 @ [EvAddHook (map_option logger_id logger)]))))
      else (None, lg, tr))"

definition init_metrics ::
  "env \<Rightarrow> Config \<Rightarrow> Resource option \<Rightarrow> StdLogger \<Rightarrow> event list
     \<Rightarrow> MetricsBridge option \<times> event list" where
  "init_metrics ev cfg res lg tr =
     (if ExportMetrics cfg then
        (case createMetricReader ev cfg tr of
           (Inl err, tr1) \<Rightarrow>
             (None, logrus_log lg ErrorLevel ''Failed to create OTLP metric reader'' (Some err) tr1)
         | (Inr (metricReader, _), tr1) \<Rightarrow>
             (case newMetricsBridgeFromReader ev metricReader [sdkmetric_WithResource res] tr1 of
                (Inl err, tr2) \<Rightarrow>
                  (None,
                   logrus_log lg ErrorLevel ''Failed to create OTEL metrics bridge'' (Some err) tr2)
              | (Inr bridge, tr2) \<Rightarrow>
                  (Some bridge, logrus_log lg InfoLevel ''OTEL metric export enabled'' None tr2)))
      else (None, tr))"

text \<open>
  \<open>Start\<close>. The two checks of the configuration come before the lock; the rest replaces
  the active manager.
\<close>

definition Start ::
  "env \<Rightarrow> Ctx \<Rightarrow> Config \<Rightarrow> string \<Rightarrow> LogrusLogger option \<Rightarrow> globals \<Rightarrow> error option \<times> globals" where
  "Start ev ctx cfg version logger g =
     (if \<not> Enabled cfg then
        (None,
         g\<lparr>history := logrus_log (stdLogger g) InfoLevel ''OTEL integration is disabled'' None
                         (history g)\<rparr>)
      else if Endpoint cfg = [] then
        (Some ''OTEL is enabled but DRONE_OTEL_ENDPOINT is not set'', g)
      else
        (let tr0 = shutdown_previous ctx g;
             tr1 = logrus_log (stdLogger g) InfoLevel
                     (''Initializing OTEL integration: endpoint='' @ Endpoint cfg
                      @ '', protocol='' @ Protocol cfg) None tr0
                   @ [EvSetErrorHandler];
             ((res, err), tr2) = NewResource ev cfg version tr1;
             tr3 = (case err of
                      None \<Rightarrow> tr2
                    | Some e \<Rightarrow>
                        logrus_log (stdLogger g) WarnLevel
                          ''Failed to create OTEL resource, using default'' (Some e) tr2);
             (hook, lg, tr4) = init_logs ev cfg res logger (stdLogger g) tr3;
             (bridge, tr5) = init_metrics ev cfg res lg tr4;
             mgr = \<lparr>logHook = hook, metricsBridge = bridge, shutdownFuncs = [], config = cfg\<rparr>
         in (None,
             \<lparr>activeManager = Some mgr,
              stdLogger = lg,
              history = logrus_log lg InfoLevel
                          (''OTEL integration initialized successfully (endpoint=''
                           @ Endpoint cfg @ '')'') None tr5\<rparr>)))"

text \<open>The accessors.\<close>

definition GetMetricsBridge :: "globals \<Rightarrow> MetricsBridge option" where
  "GetMetricsBridge g =
     (case activeManager g of None \<Rightarrow> None | Some m \<Rightarrow> metricsBridge m)"

definition GetLogHook :: "globals \<Rightarrow> OTELLogHook option" where
  "GetLogHook g =
     (case activeManager g of None \<Rightarrow> None | Some m \<Rightarrow> logHook m)"

section \<open>Test doubles\<close>

text \<open>
  A logger that accepts every record, a provider whose shutdown succeeds, and the hook
  of the panic-recovery tests, whose logger is nil.
\<close>

definition accepting_logger :: Logger where
  "accepting_logger = \<lparr>Emit = (\<lambda>ctx r tr. None)\<rparr>"

definition quiet_provider :: LoggerProvider where
  "quiet_provider = \<lparr>lp_Shutdown = (\<lambda>ctx tr. None), lp_Logger = (\<lambda>name. accepting_logger)\<rparr>"

definition nil_logger_hook :: OTELLogHook where
  "nil_logger_hook = \<lparr>loggerProvider = quiet_provider, otelLogger = None, hook_context = []\<rparr>"

text \<open>An entry as the tests build it, without fields, caller or context.\<close>

definition plain_entry :: "Level \<Rightarrow> string \<Rightarrow> Entry" where
  "plain_entry level msg =
     \<lparr>EntryLogger = None, Data = [], Time = 0, EntryLevel = level, Caller = None,
      Message = msg, EntryContext = None\<rparr>"

text \<open>
  A provider whose shutdown fails, a meter provider whose shutdown succeeds, and the
  shutdown functions of the manager's tests.
\<close>

definition failing_provider :: LoggerProvider where
  "failing_provider =
     \<lparr>lp_Shutdown = (\<lambda>ctx tr. Some ''context deadline exceeded''),
      lp_Logger = (\<lambda>name. accepting_logger)\<rparr>"

definition quiet_meter_provider :: MeterProvider where
  "quiet_meter_provider = \<lparr>mp_Shutdown = (\<lambda>ctx tr. None)\<rparr>"

definition ok_shutdownFunc :: shutdownFunc where
  "ok_shutdownFunc = (\<lambda>ctx tr. None)"

definition failing_shutdownFunc :: shutdownFunc where
  "failing_shutdownFunc = (\<lambda>ctx tr. Some ''mock shutdown failure'')"

text \<open>
  An environment in which the gRPC log exporter is built, the gRPC metric exporter and
  both HTTP exporters are not, and the resource comes with an error.
\<close>

definition test_env :: env where
  "test_env =
     \<lparr>otlploghttp_New = (\<lambda>opts. Inl ''no collector''),
      otlploggrpc_New = (\<lambda>opts. Inr \<lparr>le_Shutdown = ok_shutdownFunc\<rparr>),
      otlpmetrichttp_New = (\<lambda>opts. Inl ''no collector''),
      otlpmetricgrpc_New = (\<lambda>opts. Inl ''dial failed''),
      resource_New = (\<lambda>opts. (None, Some ''host detection failed'')),
      sdklog_NewLoggerProvider = (\<lambda>opts. quiet_provider),
      sdkmetric_NewMeterProvider = (\<lambda>opts. quiet_meter_provider)\<rparr>"

definition test_config :: Config where
  "test_config =
     \<lparr>Enabled = True, Endpoint = ''localhost:4317'', Protocol = ''grpc'', Insecure = True,
      ExportLogs = True, ExportMetrics = True, ServiceName = ''runner'', ServiceVersion = [],
      Environment = [], Headers = []\<rparr>"

text \<open>A manager with a hook whose close fails, a bridge, and two shutdown functions.\<close>

definition test_manager :: manager where
  "test_manager =
     \<lparr>logHook = Some (NewOTELLogHookWithProvider failing_provider),
      metricsBridge = Some (NewMetricsBridgeWithProvider quiet_meter_provider),
      shutdownFuncs = [ok_shutdownFunc, failing_shutdownFunc],
      config = test_config\<rparr>"

text \<open>
  A standard logger at the level info with no hook, which does not report callers and
  whose clock counts what has happened. The state in which nothing has been started, and
  the state after \<open>Start\<close> on it, called without a logger.
\<close>

definition plain_std :: StdLogger where
  "plain_std =
     \<lparr>std_hooks = [], std_level = InfoLevel, std_ReportCaller = False,
      std_now = (\<lambda>tr. int (length tr)), std_caller = (\<lambda>tr. None)\<rparr>"

definition fresh_globals :: globals where
  "fresh_globals = \<lparr>activeManager = None, stdLogger = plain_std, history = []\<rparr>"

definition started_globals :: globals where
  "started_globals = snd (Start test_env (CallerCtx 7) test_config ''1.0'' None fresh_globals)"

text \<open>An entry with fields, one of them an error under the error key, a caller and a context.\<close>

definition full_entry :: Entry where
  "full_entry =
     \<lparr>EntryLogger = Some \<lparr>logger_id = 0, ReportCaller = True\<rparr>,
      Data = [(''taskId'', OtherValue ''task-1''), (''error'', ErrorValue ''context deadline exceeded'')],
      Time = 42, EntryLevel = ErrorLevel,
      Caller = Some \<lparr>File = ''main.go'', Function = ''main.run'', Line = 17\<rparr>,
      Message = ''something failed'', EntryContext = Some (CallerCtx 7)\<rparr>"

section \<open>The severity mapper\<close>

lemmas level_defs = PanicLevel_def FatalLevel_def ErrorLevel_def WarnLevel_def InfoLevel_def
  DebugLevel_def TraceLevel_def

lemmas severity_defs = SeverityTrace_def SeverityDebug_def SeverityInfo_def SeverityWarn_def
  SeverityError_def SeverityFatal_def SeverityFatal1_def SeverityFatal2_def SeverityFatal3_def
  SeverityFatal4_def

text \<open>
  C9. \<open>mapLogrusLevel\<close> is a total function into the severities. The seven levels, from
  trace up to panic, go to seven distinct severities in strictly increasing order; fatal
  goes to a severity of the fatal class and panic to the highest of that class, which is
  another one; every value that is not one of the seven levels goes to the info severity.
\<close>

theorem mapLogrusLevel_total:
  "map mapLogrusLevel
       [TraceLevel, DebugLevel, InfoLevel, WarnLevel, ErrorLevel, FatalLevel, PanicLevel]
     = [SeverityTrace, SeverityDebug, SeverityInfo, SeverityWarn, SeverityError,
        SeverityFatal, SeverityFatal4]
   \<and> sorted_wrt (<) (map mapLogrusLevel
       [TraceLevel, DebugLevel, InfoLevel, WarnLevel, ErrorLevel, FatalLevel, PanicLevel])
   \<and> distinct (map mapLogrusLevel AllLevels)
   \<and> mapLogrusLevel FatalLevel \<in> set fatal_class
   \<and> mapLogrusLevel PanicLevel = Max (set fatal_class)
   \<and> mapLogrusLevel PanicLevel \<noteq> mapLogrusLevel FatalLevel
   \<and> (\<forall>level. level \<notin> set AllLevels \<longrightarrow> mapLogrusLevel level = SeverityInfo)"
  by (simp add: mapLogrusLevel_def AllLevels_def fatal_class_def level_defs severity_defs)

theorem mapLogrusLevel_total_witness:
  "(99 :: Level) \<notin> set AllLevels \<and> mapLogrusLevel 99 = SeverityInfo"
  using mapLogrusLevel_total by (simp add: AllLevels_def level_defs)

section \<open>The label map\<close>

lemma map_of_map_assign:
  "map_of (map_assign k v m) = (map_of m)(k \<mapsto> v)"
  by (induction m) (auto simp: fun_eq_iff)

lemma map_fst_map_assign:
  "map fst (map_assign k v m) = (if k \<in> set (map fst m) then map fst m else map fst m @ [k])"
  by (induction m) (auto simp: rev_image_eqI)

lemma keys_map_assign:
  "fst ` set (map_assign k v m) = insert k (fst ` set m)"
proof -
  have "set (map fst (map_assign k v m)) = insert k (set (map fst m))"
    by (auto simp: map_fst_map_assign)
  then show ?thesis by simp
qed

lemma distinct_map_assign:
  "distinct (map fst m) \<Longrightarrow> distinct (map fst (map_assign k v m))"
  by (simp add: map_fst_map_assign)

lemma map_of_assign_all:
  "map_of (assign_all kvs m) = map_of m ++ map_of (rev kvs)"
  by (induction kvs arbitrary: m)
    (auto simp: map_of_map_assign fun_eq_iff map_add_def split: option.splits)

lemma keys_assign_all:
  "fst ` set (assign_all kvs m) = fst ` set m \<union> fst ` set kvs"
proof (induction kvs arbitrary: m)
  case Nil
  show ?case by simp
next
  case (Cons kv kvs)
  obtain k v where kv: "kv = (k, v)" by (cases kv)
  have "fst ` set (assign_all (kv # kvs) m) = fst ` set (map_assign k v m) \<union> fst ` set kvs"
    using Cons.IH [of "map_assign k v m"] by (simp add: kv)
  then show ?case by (simp add: keys_map_assign kv)
qed

lemma distinct_assign_all:
  "distinct (map fst m) \<Longrightarrow> distinct (map fst (assign_all kvs m))"
  by (induction kvs arbitrary: m) (auto simp: distinct_map_assign)

lemma map_of_rev_distinct:
  "distinct (map fst kvs) \<Longrightarrow> map_of (rev kvs) = map_of kvs"
  by (rule map_of_inject_set[THEN iffD2]) (auto simp: rev_map[symmetric])

lemma keys_UpdateContext:
  "fst ` set (hook_context (UpdateContext h ctxMap)) = fst ` set (hook_context h) \<union> fst ` set ctxMap"
  by (simp add: UpdateContext_def keys_assign_all)

lemma keys_foldl_UpdateContext:
  "fst ` set (hook_context h) \<subseteq> fst ` set (hook_context (foldl UpdateContext h args))"
proof (induction args arbitrary: h)
  case Nil
  show ?case by simp
next
  case (Cons a args)
  have "fst ` set (hook_context h) \<subseteq> fst ` set (hook_context (UpdateContext h a))"
    by (simp add: keys_UpdateContext)
  also have "\<dots> \<subseteq> fst ` set (hook_context (foldl UpdateContext (UpdateContext h a) args))"
    by (rule Cons.IH)
  finally show ?case by simp
qed

text \<open>
  C8. \<open>UpdateContext\<close> merges its argument (a Go map: its keys are distinct) into the
  label map: the new label map is the old one overridden by the argument, so every key
  of the argument has the argument's value, every other key has the value it had, and
  the keys are those of the old label map and those of the argument. Over any sequence
  of calls the keys that were present stay present. The call keeps the keys of the
  label map distinct and touches nothing else of the hook.
\<close>

theorem UpdateContext_merge_upsert:
  assumes "distinct (map fst ctxMap)"
  shows "map_of (hook_context (UpdateContext h ctxMap)) = map_of (hook_context h) ++ map_of ctxMap
    \<and> (\<forall>k v. (k, v) \<in> set ctxMap \<longrightarrow> map_of (hook_context (UpdateContext h ctxMap)) k = Some v)
    \<and> (\<forall>k. k \<notin> fst ` set ctxMap \<longrightarrow>
          map_of (hook_context (UpdateContext h ctxMap)) k = map_of (hook_context h) k)
    \<and> fst ` set (hook_context (UpdateContext h ctxMap))
        = fst ` set (hook_context h) \<union> fst ` set ctxMap
    \<and> fst ` set (hook_context h) \<subseteq> fst ` set (hook_context (foldl UpdateContext h args))
    \<and> (distinct (map fst (hook_context h)) \<longrightarrow>
          distinct (map fst (hook_context (UpdateContext h ctxMap))))
    \<and> loggerProvider (UpdateContext h ctxMap) = loggerProvider h
    \<and> otelLogger (UpdateContext h ctxMap) = otelLogger h"
proof -
  have merged: "map_of (hook_context (UpdateContext h ctxMap)) = map_of (hook_context h) ++ map_of ctxMap"
    using assms by (simp add: UpdateContext_def map_of_assign_all map_of_rev_distinct)
  have present: "map_of (hook_context (UpdateContext h ctxMap)) k = Some v"
    if "(k, v) \<in> set ctxMap" for k v
    using that assms by (simp add: merged map_add_def)
  have absent: "map_of (hook_context (UpdateContext h ctxMap)) k = map_of (hook_context h) k"
    if "k \<notin> fst ` set ctxMap" for k
  proof -
    have "map_of ctxMap k = None"
      using that by (simp add: map_of_eq_None_iff)
    then show ?thesis by (simp add: merged map_add_def)
  qed
  have dist: "distinct (map fst (hook_context (UpdateContext h ctxMap)))"
    if "distinct (map fst (hook_context h))"
    using that by (simp add: UpdateContext_def distinct_assign_all)
  have rest: "loggerProvider (UpdateContext h ctxMap) = loggerProvider h"
    "otelLogger (UpdateContext h ctxMap) = otelLogger h"
    by (simp_all add: UpdateContext_def)
  show ?thesis
    using merged present absent dist rest keys_UpdateContext keys_foldl_UpdateContext
    by blast
qed

theorem UpdateContext_merge_upsert_witness:
  "distinct (map fst [(''key'', ''v2''), (''version'', ''1.0'')])
   \<and> map_of (hook_context (UpdateContext
        (nil_logger_hook\<lparr>hook_context := [(''accountId'', ''abc123''), (''key'', ''v1'')]\<rparr>)
        [(''key'', ''v2''), (''version'', ''1.0'')])) ''key'' = Some ''v2''
   \<and> map_of (hook_context (UpdateContext
        (nil_logger_hook\<lparr>hook_context := [(''accountId'', ''abc123''), (''key'', ''v1'')]\<rparr>)
        [(''key'', ''v2''), (''version'', ''1.0'')])) ''accountId'' = Some ''abc123''
   \<and> hook_context (UpdateContext
        (nil_logger_hook\<lparr>hook_context := [(''accountId'', ''abc123''), (''key'', ''v1'')]\<rparr>)
        [(''key'', ''v2''), (''version'', ''1.0'')])
      = [(''accountId'', ''abc123''), (''key'', ''v2''), (''version'', ''1.0'')]"
  using UpdateContext_merge_upsert
    [of "[(''key'', ''v2''), (''version'', ''1.0'')]"
        "nil_logger_hook\<lparr>hook_context := [(''accountId'', ''abc123''), (''key'', ''v1'')]\<rparr>" "[]"]
  by (simp add: UpdateContext_def)

section \<open>Fire\<close>

lemma Fire_body_cases:
  "Fire_body h entry tr =
     (case otelLogger h of
        None \<Rightarrow> (Panic nil_dereference, tr)
      | Some lg \<Rightarrow>
          (case Emit lg (Fire_ctx entry) (Fire_record h entry) tr of
             Some r \<Rightarrow> (Panic r, tr @ [EvEmit (Fire_ctx entry) (Fire_record h entry)])
           | None \<Rightarrow> (Return None, tr @ [EvEmit (Fire_ctx entry) (Fire_record h entry)])))"
  by (simp add: Fire_body_def Let_def)

lemma Fire_nil_logger:
  "otelLogger h = None \<Longrightarrow> Fire h entry tr = (Some (''otel log hook panic: '' @ nil_dereference), tr)"
  by (simp add: Fire_def Fire_body_cases)

lemma Fire_all_nil_logger:
  "otelLogger h = None \<Longrightarrow>
   Fire_all h entries tr = (map (\<lambda>e. Some (''otel log hook panic: '' @ nil_dereference)) entries, tr)"
  by (induction entries) (simp_all add: Fire_nil_logger)

lemma marker_prefix: "prefix ''otel log hook panic'' (''otel log hook panic: '' @ r)"
  by (simp add: prefix_def)

text \<open>
  C1. \<open>Fire\<close> returns to its caller whatever happens in its body: its result is an
  error or nil and a history, never a panic. Whenever the body panics with a value \<open>r\<close>,
  \<open>Fire\<close> returns the error \<open>otel log hook panic: r\<close>, whose text starts with the marker.
  A hook whose logger is nil is such a case, and every call of a sequence of calls on it
  returns such an error. When the body returns, \<open>Fire\<close> returns what the body returned,
  which is nil.
\<close>

theorem Fire_contains_faults:
  "(\<forall>r tr'. Fire_body h entry tr = (Panic r, tr') \<longrightarrow>
       Fire h entry tr = (Some (''otel log hook panic: '' @ r), tr'))
   \<and> (\<forall>r tr'. Fire_body h entry tr = (Panic r, tr') \<longrightarrow>
       (\<exists>e. fst (Fire h entry tr) = Some e \<and> prefix ''otel log hook panic'' e))
   \<and> (otelLogger h = None \<longrightarrow>
       (\<exists>r. fst (Fire_body h entry tr) = Panic r)
       \<and> (\<exists>e. fst (Fire h entry tr) = Some e \<and> prefix ''otel log hook panic'' e))
   \<and> (otelLogger h = None \<longrightarrow>
       length (fst (Fire_all h entries tr)) = length entries
       \<and> list_all (\<lambda>r. \<exists>e. r = Some e \<and> prefix ''otel log hook panic'' e) (fst (Fire_all h entries tr)))
   \<and> (\<forall>x tr'. Fire_body h entry tr = (Return x, tr') \<longrightarrow>
       Fire h entry tr = (x, tr') \<and> x = None)"
proof -
  have a: "Fire h entry tr = (Some (''otel log hook panic: '' @ r), tr')"
    if "Fire_body h entry tr = (Panic r, tr')" for r tr'
    using that by (simp add: Fire_def)
  have b: "\<exists>e. fst (Fire h entry tr) = Some e \<and> prefix ''otel log hook panic'' e"
    if "Fire_body h entry tr = (Panic r, tr')" for r tr'
    using a [OF that] marker_prefix by simp
  have c: "(\<exists>r. fst (Fire_body h entry tr) = Panic r)
       \<and> (\<exists>e. fst (Fire h entry tr) = Some e \<and> prefix ''otel log hook panic'' e)"
    if "otelLogger h = None"
    using that marker_prefix by (simp add: Fire_nil_logger Fire_body_cases)
  have d: "length (fst (Fire_all h entries tr)) = length entries
       \<and> list_all (\<lambda>r. \<exists>e. r = Some e \<and> prefix ''otel log hook panic'' e) (fst (Fire_all h entries tr))"
    if "otelLogger h = None"
    using that marker_prefix by (simp add: Fire_all_nil_logger list_all_iff)
  have e: "Fire h entry tr = (x, tr') \<and> x = None"
    if "Fire_body h entry tr = (Return x, tr')" for x tr'
    using that by (auto simp: Fire_def Fire_body_cases split: option.splits)
  show ?thesis using a b c d e by blast
qed

theorem Fire_contains_faults_witness:
  "otelLogger nil_logger_hook = None
   \<and> Fire_body nil_logger_hook (plain_entry InfoLevel ''rapid fire'') [] = (Panic nil_dereference, [])
   \<and> Fire nil_logger_hook (plain_entry InfoLevel ''rapid fire'') []
       = (Some (''otel log hook panic: '' @ nil_dereference), [])
   \<and> length (fst (Fire_all nil_logger_hook (replicate 100 (plain_entry InfoLevel ''rapid fire'')) [])) = 100
   \<and> list_all (\<lambda>r. \<exists>e. r = Some e \<and> prefix ''otel log hook panic'' e)
        (fst (Fire_all nil_logger_hook (replicate 100 (plain_entry InfoLevel ''rapid fire'')) []))"
  using Fire_contains_faults
    [of nil_logger_hook "plain_entry InfoLevel ''rapid fire''" "[]"
        "replicate 100 (plain_entry InfoLevel ''rapid fire'')"]
  by (simp add: nil_logger_hook_def Fire_body_cases)

text \<open>
  C10. \<open>Fire\<close> returns an error exactly when its body panics, and nil exactly when the
  body returns. \<open>Emit\<close> has no error result: whenever the logger is there and its \<open>Emit\<close>
  returns, \<open>Fire\<close> returns nil, whatever became of the record afterwards.
\<close>

theorem Fire_error_only_from_fault:
  "(fst (Fire h entry tr) \<noteq> None) = (\<exists>r. fst (Fire_body h entry tr) = Panic r)
   \<and> (fst (Fire h entry tr) = None) = (fst (Fire_body h entry tr) = Return None)
   \<and> (\<forall>lg. otelLogger h = Some lg \<and> Emit lg (Fire_ctx entry) (Fire_record h entry) tr = None \<longrightarrow>
         Fire h entry tr = (None, tr @ [EvEmit (Fire_ctx entry) (Fire_record h entry)]))"
  by (auto simp: Fire_def Fire_body_cases split: option.splits)

theorem Fire_error_only_from_fault_witness:
  "otelLogger (NewOTELLogHookWithProvider quiet_provider) = Some accepting_logger
   \<and> Emit accepting_logger Background
        (Fire_record (NewOTELLogHookWithProvider quiet_provider) (plain_entry WarnLevel ''m'')) [] = None
   \<and> fst (Fire (NewOTELLogHookWithProvider quiet_provider) (plain_entry WarnLevel ''m'') []) = None
   \<and> fst (Fire_body (NewOTELLogHookWithProvider quiet_provider) (plain_entry WarnLevel ''m'') []) = Return None
   \<and> fst (Fire nil_logger_hook (plain_entry WarnLevel ''m'') []) \<noteq> None
   \<and> fst (Fire_body nil_logger_hook (plain_entry WarnLevel ''m'') []) = Panic nil_dereference"
  using Fire_error_only_from_fault [of "NewOTELLogHookWithProvider quiet_provider" "plain_entry WarnLevel ''m''" "[]"]
    Fire_error_only_from_fault [of nil_logger_hook "plain_entry WarnLevel ''m''" "[]"]
  by (simp add: Fire_body_cases NewOTELLogHookWithProvider_def quiet_provider_def
      accepting_logger_def nil_logger_hook_def Fire_ctx_def plain_entry_def)

text \<open>
  C7, as the claim states it, fails in one place: the severity text is not obtained
  through the severity mapper. Two entries that differ only in their level, info and the
  undefined level 99, are mapped to the same severity, and \<open>Fire\<close> emits them with the
  same severity and with different severity texts, \<open>info\<close> and \<open>unknown\<close>.
\<close>

theorem Fire_severity_text_counterexample:
  "Fire (NewOTELLogHookWithProvider quiet_provider) (plain_entry InfoLevel ''m'') []
     = (None, [EvEmit Background
          \<lparr>Timestamp = 0, Body = ''m'', RecSeverity = SeverityInfo, SeverityText = ''info'',
           Attributes = []\<rparr>])
   \<and> Fire (NewOTELLogHookWithProvider quiet_provider) (plain_entry 99 ''m'') []
     = (None, [EvEmit Background
          \<lparr>Timestamp = 0, Body = ''m'', RecSeverity = SeverityInfo, SeverityText = ''unknown'',
           Attributes = []\<rparr>])
   \<and> mapLogrusLevel InfoLevel = mapLogrusLevel 99
   \<and> ''info'' \<noteq> ''unknown''"
  by (simp add: Fire_def Fire_body_cases Fire_ctx_def Fire_record_def Fire_attrs_def
      NewOTELLogHookWithProvider_def quiet_provider_def accepting_logger_def plain_entry_def
      mapLogrusLevel_def Level_String_def level_defs HasCaller_def ErrorKey_def)

text \<open>
  C7, amended. When the logger is there and its \<open>Emit\<close> returns, \<open>Fire\<close> emits one
  record, with the entry's context, or the background context when the entry has none.
  The record has the entry's time and message, the severity that \<open>mapLogrusLevel\<close> gives
  for the entry's level, and as severity text the level's own name (\<open>Level.String()\<close>).
  Its attributes are, in this order: every field of the entry, rendered as text; the
  label map as it is at the call; the caller's file, function and line when the entry
  has a caller; and one \<open>exception.message\<close> attribute with the error's text when the field
  under the error key holds an error, none otherwise.
\<close>

theorem Fire_builds_record:
  assumes "otelLogger h = Some lg" and "\<forall>ctx r. Emit lg ctx r tr = None"
  shows "\<exists>ctx rec.
      Fire h entry tr = (None, tr @ [EvEmit ctx rec])
    \<and> ctx = (case EntryContext entry of None \<Rightarrow> Background | Some c \<Rightarrow> c)
    \<and> Timestamp rec = Time entry
    \<and> Body rec = Message entry
    \<and> RecSeverity rec = mapLogrusLevel (EntryLevel entry)
    \<and> SeverityText rec = Level_String (EntryLevel entry)
    \<and> Attributes rec =
        map (\<lambda>(k, v). (k, StringValue (Sprintf_v v))) (Data entry)
        @ map (\<lambda>(k, v). (k, StringValue v)) (hook_context h)
        @ (case Caller entry of
             None \<Rightarrow> []
           | Some c \<Rightarrow>
               if HasCaller entry
               then [(''code.filepath'', StringValue (File c)),
                     (''code.function'', StringValue (Function c)),
                     (''code.lineno'', IntValue (Line c))]
               else [])
        @ (case map_of (Data entry) ErrorKey of
             Some (ErrorValue err) \<Rightarrow> [(''exception.message'', StringValue err)]
           | _ \<Rightarrow> [])"
proof -
  have fire: "Fire h entry tr = (None, tr @ [EvEmit (Fire_ctx entry) (Fire_record h entry)])"
    using assms by (simp add: Fire_def Fire_body_cases)
  have caller: "(if HasCaller entry then
          (case Caller entry of
             None \<Rightarrow> []
           | Some c \<Rightarrow>
               [otellog_String ''code.filepath'' (File c),
                otellog_String ''code.function'' (Function c),
                otellog_Int ''code.lineno'' (Line c)])
        else [])
      = (case Caller entry of
             None \<Rightarrow> []
           | Some c \<Rightarrow>
               if HasCaller entry
               then [(''code.filepath'', StringValue (File c)),
                     (''code.function'', StringValue (Function c)),
                     (''code.lineno'', IntValue (Line c))]
               else [])"
    by (simp add: otellog_String_def otellog_Int_def split: option.splits)
  have exc: "(case map_of (Data entry) ErrorKey of
          Some (ErrorValue err) \<Rightarrow> [otellog_String ''exception.message'' err]
        | _ \<Rightarrow> [])
      = (case map_of (Data entry) ErrorKey of
             Some (ErrorValue err) \<Rightarrow> [(''exception.message'', StringValue err)]
           | _ \<Rightarrow> [])"
    by (simp add: otellog_String_def split: option.splits Value.splits)
  have attrs: "Attributes (Fire_record h entry) =
        map (\<lambda>(k, v). (k, StringValue (Sprintf_v v))) (Data entry)
        @ map (\<lambda>(k, v). (k, StringValue v)) (hook_context h)
        @ (case Caller entry of
             None \<Rightarrow> []
           | Some c \<Rightarrow>
               if HasCaller entry
               then [(''code.filepath'', StringValue (File c)),
                     (''code.function'', StringValue (Function c)),
                     (''code.lineno'', IntValue (Line c))]
               else [])
        @ (case map_of (Data entry) ErrorKey of
             Some (ErrorValue err) \<Rightarrow> [(''exception.message'', StringValue err)]
           | _ \<Rightarrow> [])"
    unfolding Fire_record_def Fire_attrs_def caller exc
    by (simp add: otellog_String_def case_prod_beta)
  show ?thesis
    apply (rule exI [of _ "Fire_ctx entry"], rule exI [of _ "Fire_record h entry"])
    using fire attrs by (simp add: Fire_ctx_def) (simp add: Fire_record_def)
qed

theorem Fire_builds_record_witness:
  "otelLogger (UpdateContext (NewOTELLogHookWithProvider quiet_provider) [(''accountId'', ''acc123'')])
     = Some accepting_logger
   \<and> (\<forall>ctx r. Emit accepting_logger ctx r [] = None)
   \<and> Fire (UpdateContext (NewOTELLogHookWithProvider quiet_provider) [(''accountId'', ''acc123'')])
        full_entry []
      = (None,
         [EvEmit (CallerCtx 7)
            \<lparr>Timestamp = 42, Body = ''something failed'', RecSeverity = SeverityError,
             SeverityText = ''error'',
             Attributes =
               [(''taskId'', StringValue ''task-1''),
                (''error'', StringValue ''context deadline exceeded''),
                (''accountId'', StringValue ''acc123''),
                (''code.filepath'', StringValue ''main.go''),
                (''code.function'', StringValue ''main.run''),
                (''code.lineno'', IntValue 17),
                (''exception.message'', StringValue ''context deadline exceeded'')]\<rparr>])"
proof -
  let ?h = "UpdateContext (NewOTELLogHookWithProvider quiet_provider) [(''accountId'', ''acc123'')]"
  have lg: "otelLogger ?h = Some accepting_logger"
    by (simp add: UpdateContext_def NewOTELLogHookWithProvider_def quiet_provider_def)
  have em: "\<forall>ctx r. Emit accepting_logger ctx r [] = None"
    by (simp add: accepting_logger_def)
  obtain ctx rec where f: "Fire ?h full_entry [] = (None, [] @ [EvEmit ctx rec])"
    and c: "ctx = (case EntryContext full_entry of None \<Rightarrow> Background | Some c \<Rightarrow> c)"
    and t: "Timestamp rec = Time full_entry" "Body rec = Message full_entry"
      "RecSeverity rec = mapLogrusLevel (EntryLevel full_entry)"
      "SeverityText rec = Level_String (EntryLevel full_entry)"
    and a: "Attributes rec =
        map (\<lambda>(k, v). (k, StringValue (Sprintf_v v))) (Data full_entry)
        @ map (\<lambda>(k, v). (k, StringValue v)) (hook_context ?h)
        @ (case Caller full_entry of
             None \<Rightarrow> []
           | Some c \<Rightarrow>
               if HasCaller full_entry
               then [(''code.filepath'', StringValue (File c)),
                     (''code.function'', StringValue (Function c)),
                     (''code.lineno'', IntValue (Line c))]
               else [])
        @ (case map_of (Data full_entry) ErrorKey of
             Some (ErrorValue err) \<Rightarrow> [(''exception.message'', StringValue err)]
           | _ \<Rightarrow> [])"
    using Fire_builds_record [OF lg em, of full_entry] by (elim exE conjE) (rule that)
  have "rec = \<lparr>Timestamp = 42, Body = ''something failed'', RecSeverity = SeverityError,
             SeverityText = ''error'',
             Attributes =
               [(''taskId'', StringValue ''task-1''),
                (''error'', StringValue ''context deadline exceeded''),
                (''accountId'', StringValue ''acc123''),
                (''code.filepath'', StringValue ''main.go''),
                (''code.function'', StringValue ''main.run''),
                (''code.lineno'', IntValue 17),
                (''exception.message'', StringValue ''context deadline exceeded'')]\<rparr>"
    using t a
    by (simp add: full_entry_def mapLogrusLevel_def Level_String_def level_defs HasCaller_def
        ErrorKey_def UpdateContext_def NewOTELLogHookWithProvider_def)
  moreover have "ctx = CallerCtx 7" using c by (simp add: full_entry_def)
  ultimately show ?thesis using f lg em by simp
qed

section \<open>Lines on the standard logger\<close>

lemma Fire_appends:
  "\<exists>evs. snd (Fire h entry tr) = tr @ evs \<and> (\<forall>ev\<in>set evs. \<exists>c r. ev = EvEmit c r)"
  by (auto simp: Fire_def Fire_body_cases split: option.splits)

lemma LevelHooks_Fire_appends:
  "\<exists>evs. snd (LevelHooks_Fire hooks entry tr) = tr @ evs \<and> (\<forall>ev\<in>set evs. \<exists>c r. ev = EvEmit c r)"
proof (induction hooks arbitrary: tr)
  case Nil
  show ?case by simp
next
  case (Cons hook hooks)
  obtain r t where ft: "Fire hook entry tr = (r, t)" by (cases "Fire hook entry tr")
  obtain evs1 where f: "t = tr @ evs1"
    and e1: "\<forall>ev\<in>set evs1. \<exists>c r. ev = EvEmit c r"
    using Fire_appends [of hook entry tr] ft by auto
  show ?case
  proof (cases r)
    case (Some err)
    then have "snd (LevelHooks_Fire (hook # hooks) entry tr) = tr @ evs1"
      using f ft by simp
    then show ?thesis using e1 by blast
  next
    case None
    obtain evs2 where r: "snd (LevelHooks_Fire hooks entry (tr @ evs1)) = (tr @ evs1) @ evs2"
      and e2: "\<forall>ev\<in>set evs2. \<exists>c r. ev = EvEmit c r"
      using Cons.IH [of "tr @ evs1"] by blast
    have "snd (LevelHooks_Fire (hook # hooks) entry tr) = tr @ (evs1 @ evs2)"
      using None f ft r by simp
    moreover have "\<forall>ev\<in>set (evs1 @ evs2). \<exists>c r. ev = EvEmit c r"
      using e1 e2 by auto
    ultimately show ?thesis by blast
  qed
qed

lemma logrus_log_appends:
  "\<exists>emits. logrus_log lg level msg err tr = tr @ EvLog level msg err # emits
     \<and> (\<forall>ev\<in>set emits. \<exists>c r. ev = EvEmit c r)
     \<and> (std_hooks lg = [] \<longrightarrow> emits = [])"
proof (cases "IsLevelEnabled lg level")
  case False
  then show ?thesis by (simp add: logrus_log_def)
next
  case True
  obtain evs where
    a: "snd (LevelHooks_Fire [hook \<leftarrow> std_hooks lg. level \<in> set (Levels hook)]
               (std_entry lg level msg err (tr @ [EvLog level msg err])) (tr @ [EvLog level msg err]))
        = (tr @ [EvLog level msg err]) @ evs"
    and b: "\<forall>ev\<in>set evs. \<exists>c r. ev = EvEmit c r"
    using LevelHooks_Fire_appends by blast
  have c: "std_hooks lg = [] \<longrightarrow> evs = []"
    using a by auto
  have "logrus_log lg level msg err tr = tr @ EvLog level msg err # evs"
    using True a by (simp add: logrus_log_def Let_def)
  then show ?thesis using b c by blast
qed

lemma logrus_log_no_hooks:
  "std_hooks lg = [] \<Longrightarrow> logrus_log lg level msg err tr = tr @ [EvLog level msg err]"
  using logrus_log_appends [of lg level msg err tr] by auto

lemma EvLog_in_logrus_log:
  "EvLog level msg err \<in> set (logrus_log lg level msg err tr)"
  using logrus_log_appends [of lg level msg err tr] by auto

lemma logrus_log_extends:
  "\<exists>evs. logrus_log lg level msg err tr = tr @ evs"
  using logrus_log_appends [of lg level msg err tr] by auto

section \<open>The manager's shutdown\<close>

lemma run_shutdownFuncs_char:
  "\<exists>rs. length rs = length fns
     \<and> run_shutdownFuncs fns i ctx errs tr =
         (errs @ concat (map (\<lambda>r. case r of None \<Rightarrow> [] | Some e \<Rightarrow> [''exporter shutdown: '' @ e]) rs),
          tr @ map (\<lambda>(j, r). EvShutdownFunc j ctx r) (enumerate i rs))
     \<and> (\<forall>j<length rs. rs ! j =
           (fns ! j) ctx (tr @ map (\<lambda>(k, r). EvShutdownFunc k ctx r) (enumerate i (take j rs))))"
proof (induction fns arbitrary: i errs tr)
  case Nil
  show ?case by simp
next
  case (Cons fn fns)
  define r where "r = fn ctx tr"
  define errs' where
    "errs' = (case r of None \<Rightarrow> errs | Some err \<Rightarrow> errs @ [''exporter shutdown: '' @ err])"
  obtain rs where len: "length rs = length fns"
    and run: "run_shutdownFuncs fns (Suc i) ctx errs' (tr @ [EvShutdownFunc i ctx r]) =
         (errs' @ concat (map (\<lambda>r. case r of None \<Rightarrow> [] | Some e \<Rightarrow> [''exporter shutdown: '' @ e]) rs),
          (tr @ [EvShutdownFunc i ctx r]) @ map (\<lambda>(j, r). EvShutdownFunc j ctx r) (enumerate (Suc i) rs))"
    and res: "\<forall>j<length rs. rs ! j =
           (fns ! j) ctx ((tr @ [EvShutdownFunc i ctx r])
              @ map (\<lambda>(k, r). EvShutdownFunc k ctx r) (enumerate (Suc i) (take j rs)))"
    using Cons.IH [of "Suc i" errs' "tr @ [EvShutdownFunc i ctx r]"] by blast
  have 1: "length (r # rs) = length (fn # fns)" by (simp add: len)
  have 2: "run_shutdownFuncs (fn # fns) i ctx errs tr =
         (errs @ concat (map (\<lambda>r. case r of None \<Rightarrow> [] | Some e \<Rightarrow> [''exporter shutdown: '' @ e]) (r # rs)),
          tr @ map (\<lambda>(j, r). EvShutdownFunc j ctx r) (enumerate i (r # rs)))"
    using run by (simp add: r_def [symmetric] errs'_def [symmetric] Let_def)
      (simp add: errs'_def split: option.splits)
  have 3: "(r # rs) ! j =
           ((fn # fns) ! j) ctx (tr @ map (\<lambda>(k, r). EvShutdownFunc k ctx r) (enumerate i (take j (r # rs))))"
    if "j < length (r # rs)" for j
  proof (cases j)
    case 0
    then show ?thesis by (simp add: r_def)
  next
    case (Suc j')
    then have "j' < length rs" using that by simp
    then show ?thesis using res Suc by simp
  qed
  show ?case using 1 2 3 by blast
qed

lemma no_wrapped_errors:
  "(concat (map (\<lambda>r. case r of None \<Rightarrow> [] | Some e \<Rightarrow> [''exporter shutdown: '' @ e]) rs) = [])
     = list_all (\<lambda>r. r = None) rs"
  by (induction rs) (simp_all split: option.splits)

text \<open>
  C2. The shutdown of a manager does, in this order and nothing else: the log line,
  which the standard logger ships through its hooks (without a hook on the standard
  logger the line is all there is), the close of the log hook if there is one, the
  shutdown of the metrics bridge if there is one, and every shutdown function in the
  order of the list, each called once. Every one of these steps is done whatever the
  steps before it returned, and each is given the history as it is at its call. The
  error returned joins, in the order of the steps, the errors that the steps returned,
  each under the name of its step; it is nil exactly when no step returned an error.
\<close>

theorem shutdown_ordered_teardown:
  "\<exists>emits r1 r2 rs.
     length rs = length (shutdownFuncs m)
   \<and> logrus_log lg InfoLevel ''Shutting down OTEL integration'' None tr
       = tr @ EvLog InfoLevel ''Shutting down OTEL integration'' None # emits
   \<and> (\<forall>ev\<in>set emits. \<exists>c r. ev = EvEmit c r)
   \<and> (std_hooks lg = [] \<longrightarrow> emits = [])
   \<and> snd (shutdown lg (Some m) ctx tr) =
       logrus_log lg InfoLevel ''Shutting down OTEL integration'' None tr
          @ (case logHook m of None \<Rightarrow> []
             | Some h \<Rightarrow> [EvLogHookClose (WithTimeout Background logHookCloseTimeout) r1])
          @ (case metricsBridge m of None \<Rightarrow> [] | Some b \<Rightarrow> [EvMetricsBridgeShutdown ctx r2])
          @ map (\<lambda>(i, r). EvShutdownFunc i ctx r) (enumerate 0 rs)
   \<and> fst (shutdown lg (Some m) ctx tr) =
       (let errs =
          (case logHook m of None \<Rightarrow> []
           | Some h \<Rightarrow> (case r1 of None \<Rightarrow> [] | Some e \<Rightarrow> [''log hook shutdown: '' @ e]))
          @ (case metricsBridge m of None \<Rightarrow> []
             | Some b \<Rightarrow> (case r2 of None \<Rightarrow> [] | Some e \<Rightarrow> [''metrics bridge shutdown: '' @ e]))
          @ concat (map (\<lambda>r. case r of None \<Rightarrow> [] | Some e \<Rightarrow> [''exporter shutdown: '' @ e]) rs)
        in if errs = [] then None else Some (''OTEL shutdown errors: '' @ Sprint_errs errs))
   \<and> (fst (shutdown lg (Some m) ctx tr) = None)
       = ((logHook m = None \<or> r1 = None) \<and> (metricsBridge m = None \<or> r2 = None)
          \<and> list_all (\<lambda>r. r = None) rs)
   \<and> (\<forall>h. logHook m = Some h \<longrightarrow>
         r1 = lp_Shutdown (loggerProvider h) (WithTimeout Background logHookCloseTimeout)
                (logrus_log lg InfoLevel ''Shutting down OTEL integration'' None tr))
   \<and> (\<forall>b. metricsBridge m = Some b \<longrightarrow>
         r2 = mp_Shutdown (meterProvider b) ctx
                (logrus_log lg InfoLevel ''Shutting down OTEL integration'' None tr
                    @ (case logHook m of None \<Rightarrow> []
                       | Some h \<Rightarrow> [EvLogHookClose (WithTimeout Background logHookCloseTimeout) r1])))
   \<and> (\<forall>j<length rs.
         rs ! j = (shutdownFuncs m ! j) ctx
           (logrus_log lg InfoLevel ''Shutting down OTEL integration'' None tr
               @ (case logHook m of None \<Rightarrow> []
                  | Some h \<Rightarrow> [EvLogHookClose (WithTimeout Background logHookCloseTimeout) r1])
               @ (case metricsBridge m of None \<Rightarrow> [] | Some b \<Rightarrow> [EvMetricsBridgeShutdown ctx r2])
               @ map (\<lambda>(i, r). EvShutdownFunc i ctx r) (enumerate 0 (take j rs))))"
proof -
  obtain emits where lg0: "logrus_log lg InfoLevel ''Shutting down OTEL integration'' None tr
       = tr @ EvLog InfoLevel ''Shutting down OTEL integration'' None # emits"
    and em: "\<forall>ev\<in>set emits. \<exists>c r. ev = EvEmit c r"
    and nh: "std_hooks lg = [] \<longrightarrow> emits = []"
    using logrus_log_appends [of lg InfoLevel "''Shutting down OTEL integration''" None tr] by blast
  define tr0 where "tr0 = logrus_log lg InfoLevel ''Shutting down OTEL integration'' None tr"
  define cctx where "cctx = WithTimeout Background logHookCloseTimeout"
  define r1 where
    "r1 = (case logHook m of None \<Rightarrow> None | Some h \<Rightarrow> lp_Shutdown (loggerProvider h) cctx tr0)"
  define ev1 where
    "ev1 = (case logHook m of None \<Rightarrow> [] | Some h \<Rightarrow> [EvLogHookClose cctx r1])"
  define errs1 where
    "errs1 = (case logHook m of None \<Rightarrow> []
              | Some h \<Rightarrow> (case r1 of None \<Rightarrow> [] | Some e \<Rightarrow> [''log hook shutdown: '' @ e]))"
  define r2 where
    "r2 = (case metricsBridge m of None \<Rightarrow> None
           | Some b \<Rightarrow> mp_Shutdown (meterProvider b) ctx (tr0 @ ev1))"
  define ev2 where
    "ev2 = (case metricsBridge m of None \<Rightarrow> [] | Some b \<Rightarrow> [EvMetricsBridgeShutdown ctx r2])"
  define errs2 where
    "errs2 = (case metricsBridge m of None \<Rightarrow> []
              | Some b \<Rightarrow> (case r2 of None \<Rightarrow> [] | Some e \<Rightarrow> [''metrics bridge shutdown: '' @ e]))"
  obtain rs where len: "length rs = length (shutdownFuncs m)"
    and run: "run_shutdownFuncs (shutdownFuncs m) 0 ctx (errs1 @ errs2) (tr0 @ ev1 @ ev2) =
         ((errs1 @ errs2)
            @ concat (map (\<lambda>r. case r of None \<Rightarrow> [] | Some e \<Rightarrow> [''exporter shutdown: '' @ e]) rs),
          (tr0 @ ev1 @ ev2) @ map (\<lambda>(j, r). EvShutdownFunc j ctx r) (enumerate 0 rs))"
    and res: "\<forall>j<length rs. rs ! j =
           (shutdownFuncs m ! j) ctx ((tr0 @ ev1 @ ev2)
              @ map (\<lambda>(k, r). EvShutdownFunc k ctx r) (enumerate 0 (take j rs)))"
    using run_shutdownFuncs_char [of "shutdownFuncs m" 0 ctx "errs1 @ errs2" "tr0 @ ev1 @ ev2"]
    by blast
  define errs3 where
    "errs3 = concat (map (\<lambda>r. case r of None \<Rightarrow> [] | Some e \<Rightarrow> [''exporter shutdown: '' @ e]) rs)"
  define ev3 where "ev3 = map (\<lambda>(j, r). EvShutdownFunc j ctx r) (enumerate 0 rs)"
  have step1: "(case logHook m of
                    None \<Rightarrow> ([], tr0)
                  | Some h \<Rightarrow>
                      (case Close h tr0 of
                         (None, t) \<Rightarrow> ([], t)
                       | (Some err, t) \<Rightarrow> ([''log hook shutdown: '' @ err], t))) = (errs1, tr0 @ ev1)"
    by (simp add: Close_def Let_def errs1_def ev1_def r1_def cctx_def split: option.splits)
  have step2: "(case metricsBridge m of
                    None \<Rightarrow> (errs1, tr0 @ ev1)
                  | Some b \<Rightarrow>
                      (case MetricsBridge_Shutdown b ctx (tr0 @ ev1) of
                         (None, t) \<Rightarrow> (errs1, t)
                       | (Some err, t) \<Rightarrow> (errs1 @ [''metrics bridge shutdown: '' @ err], t)))
               = (errs1 @ errs2, tr0 @ ev1 @ ev2)"
    by (simp add: MetricsBridge_Shutdown_def Let_def errs2_def ev2_def r2_def split: option.splits)
  have sh: "shutdown lg (Some m) ctx tr =
      (if errs1 @ errs2 @ errs3 = [] then None
       else Some (''OTEL shutdown errors: '' @ Sprint_errs (errs1 @ errs2 @ errs3)),
       tr0 @ ev1 @ ev2 @ ev3)"
    unfolding shutdown_def
    by (simp add: tr0_def [symmetric] step1 step2 run Let_def errs3_def [symmetric] ev3_def [symmetric])
  have a: "snd (shutdown lg (Some m) ctx tr) = tr0 @ ev1 @ ev2 @ ev3" by (simp add: sh)
  have b: "fst (shutdown lg (Some m) ctx tr) =
      (let errs = errs1 @ errs2 @ errs3
       in if errs = [] then None else Some (''OTEL shutdown errors: '' @ Sprint_errs errs))"
    by (simp add: sh Let_def)
  have e1: "(errs1 = []) = (logHook m = None \<or> r1 = None)"
    by (simp add: errs1_def split: option.splits)
  have e2: "(errs2 = []) = (metricsBridge m = None \<or> r2 = None)"
    by (simp add: errs2_def split: option.splits)
  have e3: "(errs3 = []) = list_all (\<lambda>r. r = None) rs"
    unfolding errs3_def by (rule no_wrapped_errors)
  have n: "(fst (shutdown lg (Some m) ctx tr) = None)
       = ((logHook m = None \<or> r1 = None) \<and> (metricsBridge m = None \<or> r2 = None)
          \<and> list_all (\<lambda>r. r = None) rs)"
    by (simp add: sh e1 e2 e3)
  have c: "\<forall>h. logHook m = Some h \<longrightarrow> r1 = lp_Shutdown (loggerProvider h) cctx tr0"
    by (simp add: r1_def)
  have d: "\<forall>b. metricsBridge m = Some b \<longrightarrow> r2 = mp_Shutdown (meterProvider b) ctx (tr0 @ ev1)"
    by (simp add: r2_def)
  show ?thesis
    apply (rule exI [of _ emits], rule exI [of _ r1], rule exI [of _ r2], rule exI [of _ rs])
    using len lg0 em nh a b n c d res
    unfolding tr0_def cctx_def ev1_def ev2_def ev3_def errs1_def errs2_def errs3_def
    by simp
qed

lemmas td_defs = test_manager_def NewOTELLogHookWithProvider_def NewMetricsBridgeWithProvider_def
  failing_provider_def quiet_meter_provider_def ok_shutdownFunc_def failing_shutdownFunc_def
  quiet_provider_def accepting_logger_def

lemma std_hooks_plain_std: "std_hooks plain_std = []"
  by (simp add: plain_std_def)

lemma shutdown_test_manager:
  "shutdown plain_std (Some test_manager) (CallerCtx 7) tr =
     (Some ''OTEL shutdown errors: [log hook shutdown: context deadline exceeded exporter shutdown: mock shutdown failure]'',
      tr @ [EvLog InfoLevel ''Shutting down OTEL integration'' None,
       EvLogHookClose (WithTimeout Background logHookCloseTimeout) (Some ''context deadline exceeded''),
       EvMetricsBridgeShutdown (CallerCtx 7) None,
       EvShutdownFunc 0 (CallerCtx 7) None,
       EvShutdownFunc 1 (CallerCtx 7) (Some ''mock shutdown failure'')])"
  by (simp add: td_defs shutdown_def Close_def MetricsBridge_Shutdown_def Sprint_errs_def Let_def
      logrus_log_no_hooks std_hooks_plain_std)

theorem shutdown_ordered_teardown_witness:
  "logHook test_manager \<noteq> None \<and> metricsBridge test_manager \<noteq> None
   \<and> length (shutdownFuncs test_manager) = 2
   \<and> std_hooks plain_std = []
   \<and> shutdown plain_std (Some test_manager) (CallerCtx 7) [] =
     (Some ''OTEL shutdown errors: [log hook shutdown: context deadline exceeded exporter shutdown: mock shutdown failure]'',
      [EvLog InfoLevel ''Shutting down OTEL integration'' None,
       EvLogHookClose (WithTimeout Background logHookCloseTimeout) (Some ''context deadline exceeded''),
       EvMetricsBridgeShutdown (CallerCtx 7) None,
       EvShutdownFunc 0 (CallerCtx 7) None,
       EvShutdownFunc 1 (CallerCtx 7) (Some ''mock shutdown failure'')])"
proof -
  obtain rs :: "error option list" where "length rs = length (shutdownFuncs test_manager)"
    using shutdown_ordered_teardown [of test_manager plain_std "[]" "CallerCtx 7"]
    by (elim exE conjE) (rule that)
  then have "length (shutdownFuncs test_manager) = length rs" by simp
  then show ?thesis
    using shutdown_test_manager [of "[]"] by (simp add: test_manager_def std_hooks_plain_std)
qed

section \<open>Shutdown and Start\<close>

text \<open>
  C3. Without an active manager \<open>Shutdown\<close> returns nil and changes nothing. With
  an active manager it returns what the manager's shutdown returns, and the slot is
  empty afterwards, whether that was an error or not. So a second \<open>Shutdown\<close>, right after
  the first, returns nil and changes nothing, whatever the components would answer.
\<close>

theorem Shutdown_idempotent:
  "(activeManager g = None \<longrightarrow> Shutdown ctx g = (None, g))
   \<and> (\<forall>m. activeManager g = Some m \<longrightarrow>
         Shutdown ctx g =
           (fst (shutdown (stdLogger g) (Some m) ctx (history g)),
            g\<lparr>activeManager := None,
              history := snd (shutdown (stdLogger g) (Some m) ctx (history g))\<rparr>))
   \<and> activeManager (snd (Shutdown ctx g)) = None
   \<and> stdLogger (snd (Shutdown ctx g)) = stdLogger g
   \<and> Shutdown ctx' (snd (Shutdown ctx g)) = (None, snd (Shutdown ctx g))"
  by (cases "activeManager g") (simp_all add: Shutdown_def split: prod.splits)

theorem Shutdown_idempotent_witness:
  "activeManager (fresh_globals\<lparr>activeManager := Some test_manager\<rparr>) = Some test_manager
   \<and> fst (Shutdown (CallerCtx 7) (fresh_globals\<lparr>activeManager := Some test_manager\<rparr>)) =
       Some ''OTEL shutdown errors: [log hook shutdown: context deadline exceeded exporter shutdown: mock shutdown failure]''
   \<and> activeManager (snd (Shutdown (CallerCtx 7) (fresh_globals\<lparr>activeManager := Some test_manager\<rparr>))) = None
   \<and> fst (Shutdown (CallerCtx 8)
        (snd (Shutdown (CallerCtx 7) (fresh_globals\<lparr>activeManager := Some test_manager\<rparr>)))) = None
   \<and> activeManager fresh_globals = None
   \<and> Shutdown (CallerCtx 7) fresh_globals = (None, fresh_globals)"
  using Shutdown_idempotent [of "fresh_globals\<lparr>activeManager := Some test_manager\<rparr>" "CallerCtx 7" "CallerCtx 8"]
    Shutdown_idempotent [of fresh_globals "CallerCtx 7" "CallerCtx 8"]
  by (simp add: shutdown_test_manager Shutdown_def fresh_globals_def)

text \<open>
  C6. With \<open>Enabled = true\<close> and an empty endpoint \<open>Start\<close> returns the configuration
  error and has no effect at all: the slot, the standard logger and the history are as
  they were, so nothing was built, nothing was called and nothing was logged.
\<close>

theorem Start_no_endpoint:
  assumes "Enabled cfg" and "Endpoint cfg = []"
  shows "Start ev ctx cfg version logger g =
           (Some ''OTEL is enabled but DRONE_OTEL_ENDPOINT is not set'', g)"
  using assms by (simp add: Start_def)

theorem Start_no_endpoint_witness:
  "Enabled (test_config\<lparr>Endpoint := []\<rparr>) \<and> Endpoint (test_config\<lparr>Endpoint := []\<rparr>) = []
   \<and> Start test_env (CallerCtx 7) (test_config\<lparr>Endpoint := []\<rparr>) ''1.0'' None
        (fresh_globals\<lparr>activeManager := Some test_manager\<rparr>)
      = (Some ''OTEL is enabled but DRONE_OTEL_ENDPOINT is not set'',
         fresh_globals\<lparr>activeManager := Some test_manager\<rparr>)"
  using Start_no_endpoint [of "test_config\<lparr>Endpoint := []\<rparr>" test_env "CallerCtx 7"
      "''1.0''" None "fresh_globals\<lparr>activeManager := Some test_manager\<rparr>"]
  by (simp add: test_config_def)

lemma createLogExporter_history:
  "createLogExporter ev cfg tr =
     (fst (createLogExporter ev cfg []), tr @ snd (createLogExporter ev cfg []))"
  by (simp add: createLogExporter_def split: sum.splits)

lemma createMetricReader_history:
  "createMetricReader ev cfg tr =
     (fst (createMetricReader ev cfg []), tr @ snd (createMetricReader ev cfg []))"
  by (simp add: createMetricReader_def split: sum.splits)

lemma init_logs_char:
  "\<exists>evs. snd (snd (init_logs ev cfg res logger lg tr)) = tr @ evs
     \<and> (fst (init_logs ev cfg res logger lg tr) \<noteq> None)
         = (ExportLogs cfg \<and> (\<exists>x. fst (createLogExporter ev cfg []) = Inr x))
     \<and> fst (snd (init_logs ev cfg res logger lg tr))
         = (case fst (init_logs ev cfg res logger lg tr) of
              None \<Rightarrow> lg
            | Some hook \<Rightarrow> AddHook logger hook lg)
     \<and> (\<forall>e. ExportLogs cfg \<and> fst (createLogExporter ev cfg []) = Inl e \<longrightarrow>
           EvLog ErrorLevel ''Failed to create OTLP log exporter'' (Some e) \<in> set evs)"
proof (cases "ExportLogs cfg")
  case False
  then show ?thesis by (simp add: init_logs_def)
next
  case True
  show ?thesis
  proof (cases "fst (createLogExporter ev cfg [])")
    case (Inl e)
    define tr1 where "tr1 = tr @ snd (createLogExporter ev cfg [])"
    obtain emits where l: "logrus_log lg ErrorLevel ''Failed to create OTLP log exporter'' (Some e) tr1
        = tr1 @ EvLog ErrorLevel ''Failed to create OTLP log exporter'' (Some e) # emits"
      using logrus_log_appends by blast
    have "init_logs ev cfg res logger lg tr =
        (None, lg, logrus_log lg ErrorLevel ''Failed to create OTLP log exporter'' (Some e) tr1)"
      using True Inl by (simp add: init_logs_def createLogExporter_history [of ev cfg tr] tr1_def)
    then have "init_logs ev cfg res logger lg tr =
        (None, lg, tr @ (snd (createLogExporter ev cfg [])
                         @ EvLog ErrorLevel ''Failed to create OTLP log exporter'' (Some e) # emits))"
      using l unfolding tr1_def by simp
    then show ?thesis using Inl True by simp
  next
    case (Inr x)
    obtain exp f where x: "x = (exp, f)" by (cases x)
    define hook where
      "hook = projr (fst (newOTELLogHookFromExporter ev exp [sdklog_WithResource res] []))"
    define tr3 where
      "tr3 = tr @ snd (createLogExporter ev cfg [])
            @ [EvCall ''sdklog.NewBatchProcessor'', EvCall ''sdklog.NewLoggerProvider'',
               EvAddHook (map_option logger_id logger)]"
    obtain evs where l: "logrus_log (AddHook logger hook lg) InfoLevel ''OTEL log export enabled'' None tr3
        = tr3 @ evs"
      using logrus_log_extends by blast
    have "init_logs ev cfg res logger lg tr =
        (Some hook, AddHook logger hook lg,
         logrus_log (AddHook logger hook lg) InfoLevel ''OTEL log export enabled'' None tr3)"
      using True Inr x
      by (simp add: init_logs_def createLogExporter_history [of ev cfg tr]
          newOTELLogHookFromExporter_def Let_def hook_def tr3_def)
    then have "init_logs ev cfg res logger lg tr =
        (Some hook, AddHook logger hook lg,
         tr @ (snd (createLogExporter ev cfg [])
            @ [EvCall ''sdklog.NewBatchProcessor'', EvCall ''sdklog.NewLoggerProvider'',
               EvAddHook (map_option logger_id logger)] @ evs))"
      using l unfolding tr3_def by simp
    then show ?thesis using Inr True by simp
  qed
qed

lemma init_metrics_char:
  "\<exists>evs. snd (init_metrics ev cfg res lg tr) = tr @ evs
     \<and> (fst (init_metrics ev cfg res lg tr) \<noteq> None)
         = (ExportMetrics cfg \<and> (\<exists>x. fst (createMetricReader ev cfg []) = Inr x))
     \<and> (\<forall>e. ExportMetrics cfg \<and> fst (createMetricReader ev cfg []) = Inl e \<longrightarrow>
           EvLog ErrorLevel ''Failed to create OTLP metric reader'' (Some e) \<in> set evs)"
proof (cases "ExportMetrics cfg")
  case False
  then show ?thesis by (simp add: init_metrics_def)
next
  case True
  show ?thesis
  proof (cases "fst (createMetricReader ev cfg [])")
    case (Inl e)
    define tr1 where "tr1 = tr @ snd (createMetricReader ev cfg [])"
    obtain emits where l: "logrus_log lg ErrorLevel ''Failed to create OTLP metric reader'' (Some e) tr1
        = tr1 @ EvLog ErrorLevel ''Failed to create OTLP metric reader'' (Some e) # emits"
      using logrus_log_appends by blast
    have "init_metrics ev cfg res lg tr =
        (None, logrus_log lg ErrorLevel ''Failed to create OTLP metric reader'' (Some e) tr1)"
      using True Inl by (simp add: init_metrics_def createMetricReader_history [of ev cfg tr] tr1_def)
    then have "init_metrics ev cfg res lg tr =
        (None, tr @ (snd (createMetricReader ev cfg [])
                 @ EvLog ErrorLevel ''Failed to create OTLP metric reader'' (Some e) # emits))"
      using l unfolding tr1_def by simp
    then show ?thesis using Inl True by simp
  next
    case (Inr x)
    obtain rd f where x: "x = (rd, f)" by (cases x)
    define tr2 where
      "tr2 = tr @ snd (createMetricReader ev cfg []) @ [EvCall ''sdkmetric.NewMeterProvider'']"
    obtain evs where l: "logrus_log lg InfoLevel ''OTEL metric export enabled'' None tr2 = tr2 @ evs"
      using logrus_log_extends by blast
    have "init_metrics ev cfg res lg tr =
        (Some (projr (fst (newMetricsBridgeFromReader ev rd [sdkmetric_WithResource res] []))),
         logrus_log lg InfoLevel ''OTEL metric export enabled'' None tr2)"
      using True Inr x
      by (simp add: init_metrics_def createMetricReader_history [of ev cfg tr]
          newMetricsBridgeFromReader_def Let_def tr2_def)
    then have "init_metrics ev cfg res lg tr =
        (Some (projr (fst (newMetricsBridgeFromReader ev rd [sdkmetric_WithResource res] []))),
         tr @ (snd (createMetricReader ev cfg []) @ [EvCall ''sdkmetric.NewMeterProvider''] @ evs))"
      using l unfolding tr2_def by simp
    then show ?thesis using Inr True by simp
  qed
qed

lemma shutdown_previous_char:
  "(activeManager g = None \<longrightarrow> shutdown_previous ctx g = history g)
   \<and> (\<forall>m. activeManager g = Some m \<longrightarrow>
        (\<exists>w. shutdown_previous ctx g =
           snd (shutdown (stdLogger g) (Some m) ctx
                 (logrus_log (stdLogger g) InfoLevel
                    ''Shutting down previous OTEL manager before reinitializing'' None (history g))) @ w
         \<and> (\<forall>e. fst (shutdown (stdLogger g) (Some m) ctx
                 (logrus_log (stdLogger g) InfoLevel
                    ''Shutting down previous OTEL manager before reinitializing'' None (history g))) = Some e
               \<longrightarrow> (\<exists>emits. w = EvLog WarnLevel ''Failed to shutdown previous OTEL manager'' (Some e) # emits
                      \<and> (\<forall>ev\<in>set emits. \<exists>c r. ev = EvEmit c r)
                      \<and> (std_hooks (stdLogger g) = [] \<longrightarrow> emits = [])))
         \<and> (fst (shutdown (stdLogger g) (Some m) ctx
                 (logrus_log (stdLogger g) InfoLevel
                    ''Shutting down previous OTEL manager before reinitializing'' None (history g))) = None
               \<longrightarrow> w = [])))"
proof (cases "activeManager g")
  case None
  then show ?thesis by (simp add: shutdown_previous_def)
next
  case (Some m)
  define sh where "sh = shutdown (stdLogger g) (Some m) ctx
                 (logrus_log (stdLogger g) InfoLevel
                    ''Shutting down previous OTEL manager before reinitializing'' None (history g))"
  obtain r t where sh_eq: "sh = (r, t)" by (cases sh)
  have fst_sh: "fst (shutdown (stdLogger g) (Some m) ctx
                 (logrus_log (stdLogger g) InfoLevel
                    ''Shutting down previous OTEL manager before reinitializing'' None (history g))) = r"
    and snd_sh: "snd (shutdown (stdLogger g) (Some m) ctx
                 (logrus_log (stdLogger g) InfoLevel
                    ''Shutting down previous OTEL manager before reinitializing'' None (history g))) = t"
    using sh_eq unfolding sh_def by simp_all
  have ex: "\<exists>w. shutdown_previous ctx g = t @ w
         \<and> (\<forall>e. r = Some e
               \<longrightarrow> (\<exists>emits. w = EvLog WarnLevel ''Failed to shutdown previous OTEL manager'' (Some e) # emits
                      \<and> (\<forall>ev\<in>set emits. \<exists>c r. ev = EvEmit c r)
                      \<and> (std_hooks (stdLogger g) = [] \<longrightarrow> emits = [])))
         \<and> (r = None \<longrightarrow> w = [])"
  proof (cases r)
    case None
    have "shutdown_previous ctx g = t @ []"
      using Some None sh_eq unfolding shutdown_previous_def sh_def by simp
    then show ?thesis using None by blast
  next
    case (Some e)
    obtain emits where l: "logrus_log (stdLogger g) WarnLevel
          ''Failed to shutdown previous OTEL manager'' (Some e) t
        = t @ EvLog WarnLevel ''Failed to shutdown previous OTEL manager'' (Some e) # emits"
      and b: "\<forall>ev\<in>set emits. \<exists>c r. ev = EvEmit c r"
      and c: "std_hooks (stdLogger g) = [] \<longrightarrow> emits = []"
      using logrus_log_appends by blast
    have "shutdown_previous ctx g =
        t @ EvLog WarnLevel ''Failed to shutdown previous OTEL manager'' (Some e) # emits"
      using \<open>activeManager g = Some m\<close> Some l sh_eq
      unfolding shutdown_previous_def sh_def by simp
    then show ?thesis using Some b c by blast
  qed
  show ?thesis
    using Some ex fst_sh snd_sh by auto
qed

text \<open>
  C4. With \<open>Enabled = true\<close> and a non-empty endpoint \<open>Start\<close> returns nil and leaves a
  new manager in the slot, with the configuration and no shutdown functions. Before
  anything of the new manager is built, the manager that was in the slot is shut down
  by the manager's shutdown; an error of that shutdown is logged as a warning and is
  not returned. The new manager has a log hook exactly when logs are to be exported and
  the log exporter could be built, and a metrics bridge exactly when metrics are to be
  exported and the metric reader could be built, each whatever became of the other and
  of the resource. An error of the resource, of the log exporter or of the metric
  reader is logged. The hook is added to the logger given, or to the standard logger
  when none is given; the lines of \<open>Start\<close> are shipped through the hooks of the
  standard logger like any other line.
\<close>

theorem Start_enabled_installs:
  assumes "Enabled cfg" and "Endpoint cfg \<noteq> []"
  shows "\<exists>mgr lg' tr' emits rest.
      Start ev ctx cfg version logger g
        = (None, \<lparr>activeManager = Some mgr, stdLogger = lg', history = tr'\<rparr>)
    \<and> config mgr = cfg \<and> shutdownFuncs mgr = []
    \<and> (logHook mgr \<noteq> None)
        = (ExportLogs cfg \<and> (\<exists>x. fst (createLogExporter ev cfg []) = Inr x))
    \<and> (metricsBridge mgr \<noteq> None)
        = (ExportMetrics cfg \<and> (\<exists>x. fst (createMetricReader ev cfg []) = Inr x))
    \<and> lg' = (case logHook mgr of
               None \<Rightarrow> stdLogger g
             | Some hook \<Rightarrow> AddHook logger hook (stdLogger g))
    \<and> tr' = shutdown_previous ctx g
             @ EvLog InfoLevel
                  (''Initializing OTEL integration: endpoint='' @ Endpoint cfg
                   @ '', protocol='' @ Protocol cfg) None
             # emits
             @ [EvSetErrorHandler, EvCall ''resource.New'']
             @ rest
    \<and> (\<forall>ev\<in>set emits. \<exists>c r. ev = EvEmit c r)
    \<and> (std_hooks (stdLogger g) = [] \<longrightarrow> emits = [])
    \<and> (activeManager g = None \<longrightarrow> shutdown_previous ctx g = history g)
    \<and> (\<forall>m. activeManager g = Some m \<longrightarrow>
        (\<exists>w. shutdown_previous ctx g =
           snd (shutdown (stdLogger g) (Some m) ctx
                 (logrus_log (stdLogger g) InfoLevel
                    ''Shutting down previous OTEL manager before reinitializing'' None (history g))) @ w
         \<and> (\<forall>e. fst (shutdown (stdLogger g) (Some m) ctx
                 (logrus_log (stdLogger g) InfoLevel
                    ''Shutting down previous OTEL manager before reinitializing'' None (history g))) = Some e
               \<longrightarrow> (\<exists>emits. w = EvLog WarnLevel ''Failed to shutdown previous OTEL manager'' (Some e) # emits
                      \<and> (\<forall>ev\<in>set emits. \<exists>c r. ev = EvEmit c r)
                      \<and> (std_hooks (stdLogger g) = [] \<longrightarrow> emits = [])))
         \<and> (fst (shutdown (stdLogger g) (Some m) ctx
                 (logrus_log (stdLogger g) InfoLevel
                    ''Shutting down previous OTEL manager before reinitializing'' None (history g))) = None
               \<longrightarrow> w = [])))
    \<and> (\<forall>e. snd (fst (NewResource ev cfg version [])) = Some e \<longrightarrow>
          EvLog WarnLevel ''Failed to create OTEL resource, using default'' (Some e) \<in> set rest)
    \<and> (\<forall>e. ExportLogs cfg \<and> fst (createLogExporter ev cfg []) = Inl e \<longrightarrow>
          EvLog ErrorLevel ''Failed to create OTLP log exporter'' (Some e) \<in> set rest)
    \<and> (\<forall>e. ExportMetrics cfg \<and> fst (createMetricReader ev cfg []) = Inl e \<longrightarrow>
          EvLog ErrorLevel ''Failed to create OTLP metric reader'' (Some e) \<in> set rest)"
proof -
  define lg where "lg = stdLogger g"
  define init_msg where
    "init_msg = ''Initializing OTEL integration: endpoint='' @ Endpoint cfg
                   @ '', protocol='' @ Protocol cfg"
  define done_msg where
    "done_msg = ''OTEL integration initialized successfully (endpoint='' @ Endpoint cfg @ '')''"
  define tr0 where "tr0 = shutdown_previous ctx g"
  obtain emits where i1: "logrus_log lg InfoLevel init_msg None tr0
      = tr0 @ EvLog InfoLevel init_msg None # emits"
    and i2: "\<forall>ev\<in>set emits. \<exists>c r. ev = EvEmit c r"
    and i3: "std_hooks lg = [] \<longrightarrow> emits = []"
    using logrus_log_appends by blast
  define tr1 where "tr1 = logrus_log lg InfoLevel init_msg None tr0 @ [EvSetErrorHandler]"
  define res where "res = fst (fst (NewResource ev cfg version []))"
  define err where "err = snd (fst (NewResource ev cfg version []))"
  have nr: "NewResource ev cfg version tr1 = ((res, err), tr1 @ [EvCall ''resource.New''])"
    by (simp add: NewResource_def Let_def res_def err_def)
  define tr3 where
    "tr3 = (case err of
              None \<Rightarrow> tr1 @ [EvCall ''resource.New'']
            | Some e \<Rightarrow>
                logrus_log lg WarnLevel
                  ''Failed to create OTEL resource, using default'' (Some e)
                  (tr1 @ [EvCall ''resource.New'']))"
  obtain w3 where w3: "tr3 = (tr1 @ [EvCall ''resource.New'']) @ w3"
    and w3l: "\<forall>e. err = Some e \<longrightarrow>
          EvLog WarnLevel ''Failed to create OTEL resource, using default'' (Some e) \<in> set w3"
  proof (cases err)
    case None
    then have "tr3 = (tr1 @ [EvCall ''resource.New'']) @ []" by (simp add: tr3_def)
    then show ?thesis using None that by blast
  next
    case (Some e)
    obtain em where "logrus_log lg WarnLevel
                  ''Failed to create OTEL resource, using default'' (Some e)
                  (tr1 @ [EvCall ''resource.New''])
        = (tr1 @ [EvCall ''resource.New''])
          @ EvLog WarnLevel ''Failed to create OTEL resource, using default'' (Some e) # em"
      using logrus_log_appends by blast
    then have "tr3 = (tr1 @ [EvCall ''resource.New''])
          @ (EvLog WarnLevel ''Failed to create OTEL resource, using default'' (Some e) # em)"
      using Some by (simp add: tr3_def)
    then show ?thesis using Some that [of "EvLog WarnLevel ''Failed to create OTEL resource, using default'' (Some e) # em"]
      by simp
  qed
  define hook where "hook = fst (init_logs ev cfg res logger lg tr3)"
  define lg' where "lg' = fst (snd (init_logs ev cfg res logger lg tr3))"
  obtain evs4 where l1: "snd (snd (init_logs ev cfg res logger lg tr3)) = tr3 @ evs4"
    and l2: "(hook \<noteq> None) = (ExportLogs cfg \<and> (\<exists>x. fst (createLogExporter ev cfg []) = Inr x))"
    and l4: "lg' = (case hook of None \<Rightarrow> lg | Some hook \<Rightarrow> AddHook logger hook lg)"
    and l3: "\<forall>e. ExportLogs cfg \<and> fst (createLogExporter ev cfg []) = Inl e \<longrightarrow>
           EvLog ErrorLevel ''Failed to create OTLP log exporter'' (Some e) \<in> set evs4"
    using init_logs_char [of ev cfg res logger lg tr3] unfolding hook_def lg'_def by blast
  define bridge where "bridge = fst (init_metrics ev cfg res lg' (tr3 @ evs4))"
  obtain evs5 where m1: "snd (init_metrics ev cfg res lg' (tr3 @ evs4)) = (tr3 @ evs4) @ evs5"
    and m2: "(bridge \<noteq> None) = (ExportMetrics cfg \<and> (\<exists>x. fst (createMetricReader ev cfg []) = Inr x))"
    and m3: "\<forall>e. ExportMetrics cfg \<and> fst (createMetricReader ev cfg []) = Inl e \<longrightarrow>
           EvLog ErrorLevel ''Failed to create OTLP metric reader'' (Some e) \<in> set evs5"
    using init_metrics_char [of ev cfg res lg' "tr3 @ evs4"] unfolding bridge_def by blast
  obtain evs6 where d1: "logrus_log lg' InfoLevel done_msg None (tr3 @ evs4 @ evs5)
      = (tr3 @ evs4 @ evs5) @ evs6"
    using logrus_log_extends by blast
  define mgr where
    "mgr = \<lparr>logHook = hook, metricsBridge = bridge, shutdownFuncs = [], config = cfg\<rparr>"
  define rest where "rest = w3 @ evs4 @ evs5 @ evs6"
  have il: "init_logs ev cfg res logger lg tr3 = (hook, lg', tr3 @ evs4)"
    using l1 by (simp add: hook_def lg'_def prod_eq_iff)
  have im: "init_metrics ev cfg res lg' (tr3 @ evs4) = (bridge, tr3 @ evs4 @ evs5)"
    using m1 by (simp add: bridge_def prod_eq_iff)
  have st0: "Start ev ctx cfg version logger g =
      (None, \<lparr>activeManager = Some mgr, stdLogger = lg',
              history = logrus_log lg' InfoLevel done_msg None (tr3 @ evs4 @ evs5)\<rparr>)"
    using assms
    unfolding Start_def Let_def lg_def [symmetric] init_msg_def [symmetric] done_msg_def [symmetric]
      tr0_def [symmetric] tr1_def [symmetric] nr prod.case tr3_def [symmetric] il im
      mgr_def [symmetric]
    by simp
  have hist: "logrus_log lg' InfoLevel done_msg None (tr3 @ evs4 @ evs5)
      = tr0 @ EvLog InfoLevel init_msg None # emits
            @ [EvSetErrorHandler, EvCall ''resource.New''] @ rest"
    using d1 unfolding w3 tr1_def i1 rest_def by simp
  have st: "Start ev ctx cfg version logger g =
      (None, \<lparr>activeManager = Some mgr, stdLogger = lg',
              history = tr0 @ EvLog InfoLevel init_msg None # emits
            @ [EvSetErrorHandler, EvCall ''resource.New''] @ rest\<rparr>)"
    unfolding st0 hist ..
  have r1: "\<forall>e. snd (fst (NewResource ev cfg version [])) = Some e \<longrightarrow>
          EvLog WarnLevel ''Failed to create OTEL resource, using default'' (Some e) \<in> set rest"
    using w3l by (simp add: rest_def err_def [symmetric])
  have r2: "\<forall>e. ExportLogs cfg \<and> fst (createLogExporter ev cfg []) = Inl e \<longrightarrow>
          EvLog ErrorLevel ''Failed to create OTLP log exporter'' (Some e) \<in> set rest"
    using l3 by (simp add: rest_def)
  have r3: "\<forall>e. ExportMetrics cfg \<and> fst (createMetricReader ev cfg []) = Inl e \<longrightarrow>
          EvLog ErrorLevel ''Failed to create OTLP metric reader'' (Some e) \<in> set rest"
    using m3 by (simp add: rest_def)
  have mg: "config mgr = cfg" "shutdownFuncs mgr = []" "logHook mgr = hook" "metricsBridge mgr = bridge"
    by (simp_all add: mgr_def)
  show ?thesis
    apply (rule exI [of _ mgr])
    apply (rule exI [of _ lg'])
    apply (rule exI [of _ "tr0 @ EvLog InfoLevel init_msg None # emits
            @ [EvSetErrorHandler, EvCall ''resource.New''] @ rest"])
    apply (rule exI [of _ emits])
    apply (rule exI [of _ rest])
    using st mg l2 l4 m2 i2 i3 r1 r2 r3 shutdown_previous_char [of g ctx]
    unfolding lg_def tr0_def init_msg_def
    by simp
qed

lemmas eval_defs = test_env_def test_config_def init_logs_def init_metrics_def createLogExporter_def
  createMetricReader_def NewResource_def newOTELLogHookFromExporter_def
  newMetricsBridgeFromReader_def exporter_opts_def protocolHTTP_def Let_def
  quiet_provider_def plain_std_def logrus_log_def IsLevelEnabled_def
  AddHook_def Levels_def AllLevels_def level_defs std_entry_def Fire_def Fire_body_cases
  Fire_ctx_def Fire_record_def Fire_attrs_def accepting_logger_def HasCaller_def ErrorKey_def
  mapLogrusLevel_def Level_String_def otellog_String_def NewOTELLogHookWithProvider_def

lemma Start_test:
  "Start test_env (CallerCtx 7) test_config ''1.0'' None
        (fresh_globals\<lparr>activeManager := Some test_manager\<rparr>)
   = (None,
      \<lparr>activeManager = Some
         \<lparr>logHook = Some (NewOTELLogHookWithProvider quiet_provider),
          metricsBridge = None, shutdownFuncs = [], config = test_config\<rparr>,
       stdLogger = plain_std\<lparr>std_hooks := [NewOTELLogHookWithProvider quiet_provider]\<rparr>,
       history =
         [EvLog InfoLevel ''Shutting down previous OTEL manager before reinitializing'' None,
          EvLog InfoLevel ''Shutting down OTEL integration'' None,
          EvLogHookClose (WithTimeout Background logHookCloseTimeout) (Some ''context deadline exceeded''),
          EvMetricsBridgeShutdown (CallerCtx 7) None,
          EvShutdownFunc 0 (CallerCtx 7) None,
          EvShutdownFunc 1 (CallerCtx 7) (Some ''mock shutdown failure''),
          EvLog WarnLevel ''Failed to shutdown previous OTEL manager''
            (Some ''OTEL shutdown errors: [log hook shutdown: context deadline exceeded exporter shutdown: mock shutdown failure]''),
          EvLog InfoLevel ''Initializing OTEL integration: endpoint=localhost:4317, protocol=grpc'' None,
          EvSetErrorHandler,
          EvCall ''resource.New'',
          EvLog WarnLevel ''Failed to create OTEL resource, using default'' (Some ''host detection failed''),
          EvCall ''otlploggrpc.New'',
          EvCall ''sdklog.NewBatchProcessor'',
          EvCall ''sdklog.NewLoggerProvider'',
          EvAddHook None,
          EvLog InfoLevel ''OTEL log export enabled'' None,
          EvEmit Background
            \<lparr>Timestamp = 16, Body = ''OTEL log export enabled'', RecSeverity = SeverityInfo,
             SeverityText = ''info'', Attributes = []\<rparr>,
          EvCall ''otlpmetricgrpc.New'',
          EvLog ErrorLevel ''Failed to create OTLP metric reader''
            (Some ''failed to create OTLP gRPC metric exporter: dial failed''),
          EvEmit Background
            \<lparr>Timestamp = 19, Body = ''Failed to create OTLP metric reader'',
             RecSeverity = SeverityError, SeverityText = ''error'',
             Attributes =
               [(''error'', StringValue ''failed to create OTLP gRPC metric exporter: dial failed''),
                (''exception.message'',
                 StringValue ''failed to create OTLP gRPC metric exporter: dial failed'')]\<rparr>,
          EvLog InfoLevel ''OTEL integration initialized successfully (endpoint=localhost:4317)'' None,
          EvEmit Background
            \<lparr>Timestamp = 21,
             Body = ''OTEL integration initialized successfully (endpoint=localhost:4317)'',
             RecSeverity = SeverityInfo, SeverityText = ''info'', Attributes = []\<rparr>]\<rparr>)"
  unfolding Start_def shutdown_previous_def
  by (simp add: fresh_globals_def shutdown_test_manager logrus_log_no_hooks std_hooks_plain_std)
    (simp add: eval_defs fresh_globals_def)

theorem Start_enabled_installs_witness:
  "Enabled test_config \<and> Endpoint test_config \<noteq> []
   \<and> activeManager (fresh_globals\<lparr>activeManager := Some test_manager\<rparr>) = Some test_manager
   \<and> std_hooks (stdLogger (fresh_globals\<lparr>activeManager := Some test_manager\<rparr>)) = []
   \<and> fst (Start test_env (CallerCtx 7) test_config ''1.0'' None
        (fresh_globals\<lparr>activeManager := Some test_manager\<rparr>)) = None
   \<and> GetLogHook (snd (Start test_env (CallerCtx 7) test_config ''1.0'' None
        (fresh_globals\<lparr>activeManager := Some test_manager\<rparr>))) \<noteq> None
   \<and> GetMetricsBridge (snd (Start test_env (CallerCtx 7) test_config ''1.0'' None
        (fresh_globals\<lparr>activeManager := Some test_manager\<rparr>))) = None
   \<and> take 7 (history (snd (Start test_env (CallerCtx 7) test_config ''1.0'' None
        (fresh_globals\<lparr>activeManager := Some test_manager\<rparr>)))) =
         [EvLog InfoLevel ''Shutting down previous OTEL manager before reinitializing'' None,
          EvLog InfoLevel ''Shutting down OTEL integration'' None,
          EvLogHookClose (WithTimeout Background logHookCloseTimeout) (Some ''context deadline exceeded''),
          EvMetricsBridgeShutdown (CallerCtx 7) None,
          EvShutdownFunc 0 (CallerCtx 7) None,
          EvShutdownFunc 1 (CallerCtx 7) (Some ''mock shutdown failure''),
          EvLog WarnLevel ''Failed to shutdown previous OTEL manager''
            (Some ''OTEL shutdown errors: [log hook shutdown: context deadline exceeded exporter shutdown: mock shutdown failure]'')]"
proof -
  have en: "Enabled test_config" and ep: "Endpoint test_config \<noteq> []"
    by (simp_all add: test_config_def)
  obtain mgr lg' tr' where "Start test_env (CallerCtx 7) test_config ''1.0'' None
        (fresh_globals\<lparr>activeManager := Some test_manager\<rparr>)
      = (None, \<lparr>activeManager = Some mgr, stdLogger = lg', history = tr'\<rparr>)"
    using Start_enabled_installs [OF en ep, of test_env "CallerCtx 7" "''1.0''" None
        "fresh_globals\<lparr>activeManager := Some test_manager\<rparr>"]
    by (elim exE conjE) (rule that)
  then have "fst (Start test_env (CallerCtx 7) test_config ''1.0'' None
        (fresh_globals\<lparr>activeManager := Some test_manager\<rparr>)) = None" by simp
  moreover have "std_hooks (stdLogger (fresh_globals\<lparr>activeManager := Some test_manager\<rparr>)) = []"
    by (simp add: fresh_globals_def plain_std_def)
  ultimately show ?thesis
    using en ep by (simp add: Start_test GetLogHook_def GetMetricsBridge_def)
qed

lemma started_globals_eval:
  "started_globals =
     \<lparr>activeManager = Some
         \<lparr>logHook = Some (NewOTELLogHookWithProvider quiet_provider),
          metricsBridge = None, shutdownFuncs = [], config = test_config\<rparr>,
      stdLogger = plain_std\<lparr>std_hooks := [NewOTELLogHookWithProvider quiet_provider]\<rparr>,
      history =
        [EvLog InfoLevel ''Initializing OTEL integration: endpoint=localhost:4317, protocol=grpc'' None,
         EvSetErrorHandler,
         EvCall ''resource.New'',
         EvLog WarnLevel ''Failed to create OTEL resource, using default'' (Some ''host detection failed''),
         EvCall ''otlploggrpc.New'',
         EvCall ''sdklog.NewBatchProcessor'',
         EvCall ''sdklog.NewLoggerProvider'',
         EvAddHook None,
         EvLog InfoLevel ''OTEL log export enabled'' None,
         EvEmit Background
           \<lparr>Timestamp = 9, Body = ''OTEL log export enabled'', RecSeverity = SeverityInfo,
            SeverityText = ''info'', Attributes = []\<rparr>,
         EvCall ''otlpmetricgrpc.New'',
         EvLog ErrorLevel ''Failed to create OTLP metric reader''
           (Some ''failed to create OTLP gRPC metric exporter: dial failed''),
         EvEmit Background
           \<lparr>Timestamp = 12, Body = ''Failed to create OTLP metric reader'',
            RecSeverity = SeverityError, SeverityText = ''error'',
            Attributes =
              [(''error'', StringValue ''failed to create OTLP gRPC metric exporter: dial failed''),
               (''exception.message'',
                StringValue ''failed to create OTLP gRPC metric exporter: dial failed'')]\<rparr>,
         EvLog InfoLevel ''OTEL integration initialized successfully (endpoint=localhost:4317)'' None,
         EvEmit Background
           \<lparr>Timestamp = 14,
            Body = ''OTEL integration initialized successfully (endpoint=localhost:4317)'',
            RecSeverity = SeverityInfo, SeverityText = ''info'', Attributes = []\<rparr>]\<rparr>"
  unfolding started_globals_def Start_def
  by (simp add: eval_defs shutdown_previous_def fresh_globals_def)

text \<open>
  C5, as the claim states it, fails in one place: the components of the active manager
  are not left untouched. After \<open>Start\<close> was called without a logger, the hook of the active
  manager is on the standard logger; \<open>Start\<close> with \<open>Enabled = false\<close> writes its line on
  that logger, the line is shipped through the hook, and the hook's logger gets a record.
\<close>

theorem Start_disabled_counterexample:
  "GetLogHook started_globals = Some (NewOTELLogHookWithProvider quiet_provider)
   \<and> std_hooks (stdLogger started_globals) = [NewOTELLogHookWithProvider quiet_provider]
   \<and> \<not> Enabled (test_config\<lparr>Enabled := False\<rparr>)
   \<and> history (snd (Start test_env (CallerCtx 7) (test_config\<lparr>Enabled := False\<rparr>) ''1.0'' None
                     started_globals))
       = history started_globals
         @ [EvLog InfoLevel ''OTEL integration is disabled'' None,
            EvEmit Background
              \<lparr>Timestamp = 16, Body = ''OTEL integration is disabled'',
               RecSeverity = SeverityInfo, SeverityText = ''info'', Attributes = []\<rparr>]"
  unfolding Start_def
  by (simp add: started_globals_eval GetLogHook_def) (simp add: eval_defs)

text \<open>
  C5, amended. With \<open>Enabled = false\<close>, whatever the other fields, \<open>Start\<close> returns nil
  and leaves the slot, the manager in it and the hooks of the standard logger as they
  were; nothing is shut down, closed or built. Its only effect is its log line on the
  standard logger and the records that the hooks registered there emit for it; there
  are none when the standard logger has no hook or does not log at the level info.
\<close>

theorem Start_disabled_noop:
  assumes "\<not> Enabled cfg"
  shows "\<exists>emits.
      Start ev ctx cfg version logger g =
        (None,
         g\<lparr>history := history g @ EvLog InfoLevel ''OTEL integration is disabled'' None # emits\<rparr>)
    \<and> history g @ EvLog InfoLevel ''OTEL integration is disabled'' None # emits
        = logrus_log (stdLogger g) InfoLevel ''OTEL integration is disabled'' None (history g)
    \<and> (\<forall>ev\<in>set emits. \<exists>c r. ev = EvEmit c r)
    \<and> (std_hooks (stdLogger g) = [] \<longrightarrow> emits = [])
    \<and> (\<not> IsLevelEnabled (stdLogger g) InfoLevel \<longrightarrow> emits = [])
    \<and> activeManager (snd (Start ev ctx cfg version logger g)) = activeManager g
    \<and> stdLogger (snd (Start ev ctx cfg version logger g)) = stdLogger g"
proof -
  obtain emits where a: "logrus_log (stdLogger g) InfoLevel ''OTEL integration is disabled'' None (history g)
      = history g @ EvLog InfoLevel ''OTEL integration is disabled'' None # emits"
    and b: "\<forall>ev\<in>set emits. \<exists>c r. ev = EvEmit c r"
    and c: "std_hooks (stdLogger g) = [] \<longrightarrow> emits = []"
    using logrus_log_appends by blast
  have d: "\<not> IsLevelEnabled (stdLogger g) InfoLevel \<longrightarrow> emits = []"
    using a by (auto simp: logrus_log_def)
  have s: "Start ev ctx cfg version logger g =
        (None,
         g\<lparr>history := logrus_log (stdLogger g) InfoLevel ''OTEL integration is disabled'' None (history g)\<rparr>)"
    using assms by (simp add: Start_def)
  show ?thesis
    apply (rule exI [of _ emits])
    using b c d by (simp add: s a)
qed

theorem Start_disabled_noop_witness:
  "\<not> Enabled (test_config\<lparr>Enabled := False, Endpoint := []\<rparr>)
   \<and> std_hooks (stdLogger (fresh_globals\<lparr>activeManager := Some test_manager\<rparr>)) = []
   \<and> Start test_env (CallerCtx 7) (test_config\<lparr>Enabled := False, Endpoint := []\<rparr>) ''1.0'' None
        (fresh_globals\<lparr>activeManager := Some test_manager\<rparr>)
      = (None, fresh_globals\<lparr>activeManager := Some test_manager,
                history := [EvLog InfoLevel ''OTEL integration is disabled'' None]\<rparr>)
   \<and> \<not> IsLevelEnabled (plain_std\<lparr>std_hooks := [nil_logger_hook], std_level := WarnLevel\<rparr>) InfoLevel
   \<and> Start test_env (CallerCtx 7) (test_config\<lparr>Enabled := False, Endpoint := []\<rparr>) ''1.0'' None
        (fresh_globals\<lparr>stdLogger := plain_std\<lparr>std_hooks := [nil_logger_hook], std_level := WarnLevel\<rparr>\<rparr>)
      = (None, fresh_globals\<lparr>stdLogger := plain_std\<lparr>std_hooks := [nil_logger_hook], std_level := WarnLevel\<rparr>,
                history := [EvLog InfoLevel ''OTEL integration is disabled'' None]\<rparr>)"
proof -
  have ne: "\<not> Enabled (test_config\<lparr>Enabled := False, Endpoint := []\<rparr>)"
    by (simp add: test_config_def)
  have nh: "std_hooks (stdLogger (fresh_globals\<lparr>activeManager := Some test_manager\<rparr>)) = []"
    by (simp add: fresh_globals_def plain_std_def)
  obtain emits where s: "Start test_env (CallerCtx 7) (test_config\<lparr>Enabled := False, Endpoint := []\<rparr>)
        ''1.0'' None (fresh_globals\<lparr>activeManager := Some test_manager\<rparr>) =
        (None,
         (fresh_globals\<lparr>activeManager := Some test_manager\<rparr>)
           \<lparr>history := history (fresh_globals\<lparr>activeManager := Some test_manager\<rparr>)
              @ EvLog InfoLevel ''OTEL integration is disabled'' None # emits\<rparr>)"
    and e: "std_hooks (stdLogger (fresh_globals\<lparr>activeManager := Some test_manager\<rparr>)) = []
        \<longrightarrow> emits = []"
    using Start_disabled_noop [OF ne, of test_env "CallerCtx 7" "''1.0''" None
        "fresh_globals\<lparr>activeManager := Some test_manager\<rparr>"]
    by (elim exE conjE) (rule that)
  have "emits = []" using e nh by simp
  moreover have "\<not> IsLevelEnabled (plain_std\<lparr>std_hooks := [nil_logger_hook], std_level := WarnLevel\<rparr>) InfoLevel"
    by (simp add: IsLevelEnabled_def level_defs)
  moreover have "Start test_env (CallerCtx 7) (test_config\<lparr>Enabled := False, Endpoint := []\<rparr>) ''1.0'' None
        (fresh_globals\<lparr>stdLogger := plain_std\<lparr>std_hooks := [nil_logger_hook], std_level := WarnLevel\<rparr>\<rparr>)
      = (None, fresh_globals\<lparr>stdLogger := plain_std\<lparr>std_hooks := [nil_logger_hook], std_level := WarnLevel\<rparr>,
                history := [EvLog InfoLevel ''OTEL integration is disabled'' None]\<rparr>)"
    by (simp add: Start_def test_config_def fresh_globals_def logrus_log_def IsLevelEnabled_def
        level_defs)
  ultimately show ?thesis using s ne nh by (simp add: fresh_globals_def)
qed

end
